theory Spec2Isabelle
  imports Main "HOL-Library.Monad_Syntax" "HOL-Library.Sublist"
begin

section \<open>The abstract syntax consumed by the mangler\<close>

text \<open>
  The mangler of \<^verbatim>\<open>lib/IRGen/Mangle.cpp\<close> reads declarations, declaration contexts and
  types of the compiler's semantic model. The model below keeps the accessors the source
  calls as selectors of the datatypes. Address identity (the keys of the two
  \<^verbatim>\<open>DenseMap\<close>s) is a natural number carried by the node.
\<close>

type_synonym ptr = nat

datatype ExplosionKind = Minimal | Maximal

datatype FPKind = IEEE16 | IEEE32 | IEEE64 | IEEE80 | IEEE128 | PPC128

datatype Identifier = Identifier (str: string) (isOperator: bool)

text \<open>What \<^verbatim>\<open>getClangDecl()\<close> points to, as far as the mangler looks at it.\<close>

datatype ClangDecl =
    ObjCInterfaceDecl
  | DeclaratorDecl (clang_getName: string)
  | OtherClangDecl

datatype DeclKind =
    DeclKind_TypeAlias
  | DeclKind_OneOf
  | DeclKind_Struct
  | DeclKind_Class
  | DeclKind_Protocol
  | DeclKind_Var
  | DeclKind_Func
  | DeclKind_OneOfElement (hasArgumentType: bool)
  | DeclKind_Subscript
  | DeclKind_Constructor
  | DeclKind_Destructor

text \<open>
  The type kinds are those of the switch in \<^verbatim>\<open>Mangler::mangleType\<close>. The sugared kinds
  come from \<^verbatim>\<open>swift/AST/TypeNodes.def\<close>, which is not part of the sources at hand: one
  constructor \<open>SugaredType\<close> stands for all of them and holds the type the sugar is
  written over. A function type carries the flag that \<^verbatim>\<open>isBlockFunctionType\<close> (declared in
  \<^verbatim>\<open>GenFunc.h\<close>) reads.
\<close>

datatype Type =
    ErrorType
  | UnstructuredUnresolvedType
  | DeducibleGenericParamType
  | TypeVariableType
  | ModuleType
  | BuiltinFloatType (getFPKind: FPKind)
  | BuiltinIntegerType (getBitWidth: nat)
  | BuiltinRawPointerType
  | BuiltinOpaquePointerType
  | BuiltinObjectPointerType
  | BuiltinObjCPointerType
  | SugaredType Type
  | MetaTypeType Type
  | LValueType Type
  | TupleType "(Identifier option \<times> Type) list"
  | OneOfType Decl
  | ProtocolType Decl
  | StructType Decl
  | ClassType Decl
  | UnboundGenericType Decl
  | BoundGenericClassType Decl "Type list"
  | BoundGenericOneOfType Decl "Type list"
  | BoundGenericStructType Decl "Type list"
  | PolymorphicFunctionType GenericParamList Type Type bool
  | ArchetypeType Archetype
  | FunctionType Type Type bool
  | ArrayType nat Type
  | ProtocolCompositionType "Type list"
and Decl =
    Decl (getKind: DeclKind) (getName: Identifier) (getDeclContext: DeclContext)
      (getType: Type) (AsmName: string) (getClangDecl: "ClangDecl option") (isObjC: bool)
      (getDeclaredType: ptr) (getGetterDecl: "Decl option") (getSetterDecl: "Decl option")
      (getGenericParamsOfContext: "GenericParamList option")
and DeclContext =
    BuiltinModule Module
  | ClangModule Module
  | TranslationUnit Module
  | NominalTypeDecl Decl
  | ExtensionDecl Type
  | CapturingExpr_FuncExpr "Decl option"
  | CapturingExpr_Other
  | ConstructorDecl Decl
  | DestructorDecl Decl
  | TopLevelCodeDecl
and Module =
    Module (module_ptr: ptr) (Name: Identifier) (getParent: "DeclContext option")
and GenericParamList =
    GenericParamList (getOuterParameters: "GenericParamList option")
      (getAllArchetypes: "Archetype list")
and Archetype =
    Archetype (archetype_ptr: ptr) (getConformsTo: "Decl list")

abbreviation isa_ClassDecl :: "Decl \<Rightarrow> bool" where
  "isa_ClassDecl decl \<equiv> getKind decl = DeclKind_Class"

abbreviation isa_VarDecl :: "Decl \<Rightarrow> bool" where
  "isa_VarDecl decl \<equiv> getKind decl = DeclKind_Var"

abbreviation isa_SubscriptDecl :: "Decl \<Rightarrow> bool" where
  "isa_SubscriptDecl decl \<equiv> getKind decl = DeclKind_Subscript"

text \<open>\<^verbatim>\<open>FuncDecl::isGetterOrSetter\<close>: the function is the accessor of some declaration.\<close>

definition isGetterOrSetter :: "Decl \<Rightarrow> bool" where
  "isGetterOrSetter func \<longleftrightarrow> getGetterDecl func \<noteq> None \<or> getSetterDecl func \<noteq> None"

text \<open>\<^verbatim>\<open>dyn_cast<Module>\<close> on a declaration context: the three module kinds are modules.\<close>

fun dyn_cast_Module :: "DeclContext \<Rightarrow> Module option" where
  "dyn_cast_Module (BuiltinModule m) = Some m"
| "dyn_cast_Module (ClangModule m) = Some m"
| "dyn_cast_Module (TranslationUnit m) = Some m"
| "dyn_cast_Module (NominalTypeDecl d) = None"
| "dyn_cast_Module (ExtensionDecl t) = None"
| "dyn_cast_Module (CapturingExpr_FuncExpr d) = None"
| "dyn_cast_Module CapturingExpr_Other = None"
| "dyn_cast_Module (ConstructorDecl d) = None"
| "dyn_cast_Module (DestructorDecl d) = None"
| "dyn_cast_Module TopLevelCodeDecl = None"

text \<open>
  \<^verbatim>\<open>TypeBase::getDesugaredType\<close> and \<^verbatim>\<open>TypeBase::getCanonicalType\<close> belong to the
  semantic model, outside the sources at hand. The first removes the sugar a type is
  written with at its head, the second removes it at every level of the type.
\<close>

fun getDesugaredType :: "Type \<Rightarrow> Type" where
  "getDesugaredType (SugaredType t) = getDesugaredType t"
| "getDesugaredType t = t"

fun getCanonicalType :: "Type \<Rightarrow> Type" where
  "getCanonicalType (SugaredType t) = getCanonicalType t"
| "getCanonicalType (MetaTypeType t) = MetaTypeType (getCanonicalType t)"
| "getCanonicalType (LValueType t) = LValueType (getCanonicalType t)"
| "getCanonicalType (TupleType elements) =
     TupleType (map (\<lambda>field. (fst field, getCanonicalType (snd field))) elements)"
| "getCanonicalType (BoundGenericClassType d args) =
     BoundGenericClassType d (map getCanonicalType args)"
| "getCanonicalType (BoundGenericOneOfType d args) =
     BoundGenericOneOfType d (map getCanonicalType args)"
| "getCanonicalType (BoundGenericStructType d args) =
     BoundGenericStructType d (map getCanonicalType args)"
| "getCanonicalType (PolymorphicFunctionType params input result block) =
     PolymorphicFunctionType params (getCanonicalType input) (getCanonicalType result) block"
| "getCanonicalType (FunctionType input result block) =
     FunctionType (getCanonicalType input) (getCanonicalType result) block"
| "getCanonicalType (ArrayType n t) = ArrayType n (getCanonicalType t)"
| "getCanonicalType (ProtocolCompositionType protocols) =
     ProtocolCompositionType (map getCanonicalType protocols)"
| "getCanonicalType t = t"

text \<open>\<^verbatim>\<open>castTo<ProtocolType>()->getDecl()\<close>: looks through sugar, fails on any other type.\<close>

definition castTo_ProtocolType :: "Type \<Rightarrow> Decl option" where
  "castTo_ProtocolType t =
     (case getDesugaredType t of ProtocolType d \<Rightarrow> Some d | _ \<Rightarrow> None)"

text \<open>\<^verbatim>\<open>castTo<AnyFunctionType>()\<close>: looks through sugar, fails on a type that is no function.\<close>

definition castTo_AnyFunctionType :: "Type \<Rightarrow> Type option" where
  "castTo_AnyFunctionType t =
     (case getDesugaredType t of
        FunctionType input result block \<Rightarrow> Some (FunctionType input result block)
      | PolymorphicFunctionType params input result block \<Rightarrow>
          Some (PolymorphicFunctionType params input result block)
      | _ \<Rightarrow> None)"

section \<open>Output and the mangler's state\<close>

text \<open>
  \<^verbatim>\<open>raw_ostream << unsigned\<close> prints a number in decimal without leading zeros.
\<close>

definition digit_char :: "nat \<Rightarrow> char" where
  "digit_char d = ''0123456789'' ! d"

fun decimal :: "nat \<Rightarrow> string" where
  "decimal n = (if n < 10 then [digit_char n] else decimal (n div 10) @ [digit_char (n mod 10)])"

declare decimal.simps [simp del]

datatype ArchetypeInfo = ArchetypeInfo (Depth: nat) (Index: nat)

text \<open>
  The members of \<^verbatim>\<open>class Mangler\<close>. The two \<^verbatim>\<open>DenseMap\<close>s are association lists in
  insertion order: \<^verbatim>\<open>find\<close> is \<open>map_of\<close>, \<^verbatim>\<open>size()\<close> is the length, and \<^verbatim>\<open>insert\<close> adds
  a key only when it is absent. The \<^verbatim>\<open>unsigned\<close> counters are natural numbers: each is
  bounded by the size of the syntax tree that is mangled.
\<close>

record Mangler =
  Buffer :: string
  Substitutions :: "(ptr \<times> nat) list"
  Archetypes :: "(ptr \<times> ArchetypeInfo) list"
  ArchetypesDepth :: nat

text \<open>\<^verbatim>\<open>Buffer << text\<close>\<close>

definition emit :: "string \<Rightarrow> Mangler \<Rightarrow> Mangler" where
  "emit text m = m\<lparr>Buffer := Buffer m @ text\<rparr>"

text \<open>A run of \<open>f\<close> over the elements of a range-based \<^verbatim>\<open>for\<close> loop, in order.\<close>

fun forEach :: "('a \<Rightarrow> 's \<Rightarrow> 's option) \<Rightarrow> 'a list \<Rightarrow> 's \<Rightarrow> 's option" where
  "forEach f [] s = Some s"
| "forEach f (x # xs) s = (case f x s of None \<Rightarrow> None | Some s' \<Rightarrow> forEach f xs s')"

section \<open>Identifiers, indices and substitutions\<close>

fun mangleOperatorChar :: "char \<Rightarrow> char option" where
  "mangleOperatorChar op =
    (if op = CHR ''&'' then Some CHR ''a''
     else if op = CHR ''/'' then Some CHR ''d''
     else if op = CHR ''='' then Some CHR ''e''
     else if op = CHR ''>'' then Some CHR ''g''
     else if op = CHR ''<'' then Some CHR ''l''
     else if op = CHR ''*'' then Some CHR ''m''
     else if op = CHR ''!'' then Some CHR ''n''
     else if op = CHR ''|'' then Some CHR ''o''
     else if op = CHR ''+'' then Some CHR ''p''
     else if op = CHR ''%'' then Some CHR ''r''
     else if op = CHR ''-'' then Some CHR ''s''
     else if op = CHR ''^'' then Some CHR ''x''
     else if op = CHR ''~'' then Some CHR ''t''
     else if op = CHR ''.'' then Some CHR ''z''
     else None)"

declare mangleOperatorChar.simps [simp del]

definition isSwiftModule :: "Module \<Rightarrow> bool" where
  "isSwiftModule module \<longleftrightarrow> getParent module = None \<and> str (Name module) = ''swift''"

text \<open>\<^verbatim>\<open>operator<<(raw_ostream &, Index)\<close>\<close>

definition Index :: "nat \<Rightarrow> string" where
  "Index n = (if n \<noteq> 0 then decimal (n - 1) else []) @ ''_''"

definition mangleIdentifier :: "Identifier \<Rightarrow> Mangler \<Rightarrow> Mangler option" where
  "mangleIdentifier ident m =
    (if str ident = [] then None
     else if \<not> isOperator ident then Some (emit (decimal (length (str ident)) @ str ident) m)
     else forEach (\<lambda>c m. map_option (\<lambda>op. emit [op] m) (mangleOperatorChar c)) (str ident)
            (emit (decimal (length (str ident))) (emit ''op'' m)))"

definition tryMangleSubstitution :: "ptr \<Rightarrow> Mangler \<Rightarrow> bool \<times> Mangler" where
  "tryMangleSubstitution p m =
    (case map_of (Substitutions m) p of
       None \<Rightarrow> (False, m)
     | Some index \<Rightarrow>
         (True, emit ''_'' ((if index \<noteq> 0 then emit (decimal (index - 1)) else id) (emit ''S'' m))))"

definition addSubstitution :: "ptr \<Rightarrow> Mangler \<Rightarrow> Mangler" where
  "addSubstitution p m =
    (if map_of (Substitutions m) p = None
     then m\<lparr>Substitutions := Substitutions m @ [(p, length (Substitutions m))]\<rparr>
     else m)"

definition getSpecifierForNominalType :: "Decl \<Rightarrow> char option" where
  "getSpecifierForNominalType decl =
    (case getKind decl of
       DeclKind_Protocol \<Rightarrow> Some CHR ''P''
     | DeclKind_Class \<Rightarrow> Some CHR ''C''
     | DeclKind_OneOf \<Rightarrow> Some CHR ''O''
     | DeclKind_Struct \<Rightarrow> Some CHR ''V''
     | _ \<Rightarrow> None)"

definition tryMangleStandardSubstitution :: "Decl \<Rightarrow> Mangler \<Rightarrow> bool \<times> Mangler" where
  "tryMangleStandardSubstitution decl m =
    (case dyn_cast_Module (getDeclContext decl) of
       None \<Rightarrow> (False, m)
     | Some parent \<Rightarrow>
         if \<not> isSwiftModule parent then (False, m)
         else let name = str (getName decl) in
           if name = ''Int64'' then (True, emit ''Si'' m)
           else if name = ''UInt64'' then (True, emit ''Su'' m)
           else if name = ''Bool'' then (True, emit ''Sb'' m)
           else if name = ''Char'' then (True, emit ''Sc'' m)
           else if name = ''Float64'' then (True, emit ''Sd'' m)
           else if name = ''Float32'' then (True, emit ''Sf'' m)
           else if name = ''String'' then (True, emit ''SS'' m)
           else (False, m))"

text \<open>The \<^verbatim>\<open>do ... while\<close> loop of \<^verbatim>\<open>bindGenericParameters\<close> over the outer parameter lists.\<close>

fun countDepth :: "GenericParamList \<Rightarrow> Mangler \<Rightarrow> Mangler" where
  "countDepth (GenericParamList outer archetypes) m =
    (let m' = m\<lparr>ArchetypesDepth := ArchetypesDepth m + 1\<rparr>
     in case outer of None \<Rightarrow> m' | Some parent \<Rightarrow> countDepth parent m')"

section \<open>The mangler\<close>

datatype IncludeType = No | Yes

text \<open>
  The visitor \<^verbatim>\<open>ClassifyDecl\<close> of \<^verbatim>\<open>mangleDeclType\<close>: whether the type is mangled, and
  whether the archetypes of the context are bound first.
\<close>

definition ClassifyDecl :: "Decl \<Rightarrow> bool \<times> bool" where
  "ClassifyDecl D =
    (case getKind D of
       DeclKind_TypeAlias \<Rightarrow> (False, False)
     | DeclKind_OneOf \<Rightarrow> (False, False)
     | DeclKind_Struct \<Rightarrow> (False, False)
     | DeclKind_Class \<Rightarrow> (False, False)
     | DeclKind_Protocol \<Rightarrow> (False, False)
     | DeclKind_Func \<Rightarrow> (True, False)
     | DeclKind_Constructor \<Rightarrow> (True, False)
     | DeclKind_Destructor \<Rightarrow> (True, False)
     | DeclKind_Var \<Rightarrow> (True, True)
     | DeclKind_Subscript \<Rightarrow> (True, True)
     | DeclKind_OneOfElement hasArg \<Rightarrow> (True, hasArg))"

text \<open>Sizes of the parts of a node, for the termination of the mangler.\<close>

lemma size_getDesugaredType: "size (getDesugaredType t) \<le> size t"
  by (induction t rule: getDesugaredType.induct) auto

lemma size_getCanonicalType: "size (getCanonicalType t) \<le> size t"
proof (induction t rule: getCanonicalType.induct)
  case (4 elements)
  have "size_list (size_prod (\<lambda>x. 0) size)
          (map (\<lambda>field. (fst field, getCanonicalType (snd field))) elements)
        \<le> size_list (size_prod (\<lambda>x. 0) size) elements"
    using 4 unfolding size_list_map by (intro size_list_pointwise) (auto simp: size_prod_simp)
  then show ?case by simp
qed (auto intro: size_list_pointwise)

lemma size_castTo_ProtocolType: "castTo_ProtocolType t = Some d \<Longrightarrow> size d < size t"
  using size_getDesugaredType [of t]
  by (auto simp: castTo_ProtocolType_def split: Type.splits)

lemma castTo_AnyFunctionType_Some:
  "castTo_AnyFunctionType t = Some fn \<Longrightarrow> fn = getDesugaredType t"
  by (auto simp: castTo_AnyFunctionType_def split: Type.splits)

lemma size_castTo_AnyFunctionType: "castTo_AnyFunctionType t = Some fn \<Longrightarrow> size fn \<le> size t"
  using size_getDesugaredType [of t] by (auto dest: castTo_AnyFunctionType_Some)

lemma size_Decl_fields:
  "size (getDeclContext d) < size d"
  "size (getType d) < size d"
  "getGetterDecl d = Some x \<Longrightarrow> size x < size d"
  "getSetterDecl d = Some x \<Longrightarrow> size x < size d"
  "getGenericParamsOfContext d = Some g \<Longrightarrow> size g < size d"
  by (cases d; auto)+

lemma size_Module_parent: "getParent module = Some c \<Longrightarrow> size c < size module"
  by (cases module) auto

lemma size_archetypes:
  "a \<in> set (getAllArchetypes g) \<Longrightarrow> size_list size (getConformsTo a) < size g"
  apply (cases g; cases a)
  apply (auto dest!: size_list_estimation'[where f=size and y="size a"])
  done

lemma forEach_cong [fundef_cong]:
  "xs = ys \<Longrightarrow> s = t \<Longrightarrow> (\<And>x s'. x \<in> set ys \<Longrightarrow> f x s' = g x s')
    \<Longrightarrow> forEach f xs s = forEach g ys t"
  by (induction ys arbitrary: xs s t) (auto split: option.splits)

declare Option.bind_cong [fundef_cong]

text \<open>
  The methods of \<^verbatim>\<open>class Mangler\<close> that call each other. Every method takes the mangler
  and returns it updated; \<open>None\<close> is a failed \<^verbatim>\<open>assert\<close>, \<^verbatim>\<open>cast\<close> or
  \<^verbatim>\<open>llvm_unreachable\<close>. A \<^verbatim>\<open>SaveAndRestore<unsigned>\<close> on \<^verbatim>\<open>ArchetypesDepth\<close> writes the
  saved depth back when the method returns.
\<close>

function (sequential)
  mangleContextOf :: "Decl \<Rightarrow> Mangler \<Rightarrow> Mangler option" and
  mangleDeclContext :: "DeclContext \<Rightarrow> Mangler \<Rightarrow> Mangler option" and
  mangleGetterOrSetterContext :: "Decl \<Rightarrow> Mangler \<Rightarrow> Mangler option" and
  bindGenericParameters :: "GenericParamList \<Rightarrow> bool \<Rightarrow> Mangler \<Rightarrow> Mangler option" and
  manglePolymorphicType ::
    "GenericParamList \<Rightarrow> Type \<Rightarrow> ExplosionKind \<Rightarrow> nat \<Rightarrow> bool \<Rightarrow> Mangler \<Rightarrow> Mangler option" and
  mangleDeclName :: "Decl \<Rightarrow> IncludeType \<Rightarrow> Mangler \<Rightarrow> Mangler option" and
  mangleDeclType :: "Decl \<Rightarrow> ExplosionKind \<Rightarrow> nat \<Rightarrow> Mangler \<Rightarrow> Mangler option" and
  mangleType :: "Type \<Rightarrow> ExplosionKind \<Rightarrow> nat \<Rightarrow> Mangler \<Rightarrow> Mangler option" and
  mangleProtocolList_Type :: "Type list \<Rightarrow> Mangler \<Rightarrow> Mangler option" and
  mangleProtocolList :: "Decl list \<Rightarrow> Mangler \<Rightarrow> Mangler option" and
  mangleProtocolName :: "Decl \<Rightarrow> Mangler \<Rightarrow> Mangler option" and
  mangleNominalType :: "Decl \<Rightarrow> ExplosionKind \<Rightarrow> Mangler \<Rightarrow> Mangler option" and
  mangleFunctionType :: "Type \<Rightarrow> ExplosionKind \<Rightarrow> nat \<Rightarrow> Mangler \<Rightarrow> Mangler option"
where
  "mangleContextOf decl m =
    (if isa_ClassDecl decl \<and> (getClangDecl decl \<noteq> None \<or> isObjC decl) then
       (if getClangDecl decl \<noteq> None \<and> getClangDecl decl \<noteq> Some ObjCInterfaceDecl then None
        else Some (emit ''So'' m))
     else mangleDeclContext (getDeclContext decl) m)"

| "mangleDeclContext (BuiltinModule module) m = None"
| "mangleDeclContext (ClangModule module) m = Some m"
| "mangleDeclContext (TranslationUnit module) m =
    (if isSwiftModule module then Some (emit ''Ss'' m)
     else let (found, m1) = tryMangleSubstitution (module_ptr module) m in
       if found then Some m1
       else do {
         m2 \<leftarrow> (case getParent module of
                  None \<Rightarrow> Some m1
                | Some parent \<Rightarrow> mangleDeclContext parent m1);
         m3 \<leftarrow> mangleIdentifier (Name module) m2;
         Some (addSubstitution (module_ptr module) m3)
       })"
| "mangleDeclContext (NominalTypeDecl decl) m = mangleNominalType decl Minimal m"
| "mangleDeclContext (ExtensionDecl type) m = mangleType (getCanonicalType type) Minimal 0 m"
| "mangleDeclContext (CapturingExpr_FuncExpr (Some decl)) m =
    (if isGetterOrSetter decl then mangleGetterOrSetterContext decl m
     else mangleDeclName decl Yes m)"
| "mangleDeclContext (CapturingExpr_FuncExpr None) m = None"
| "mangleDeclContext CapturingExpr_Other m = None"
| "mangleDeclContext (ConstructorDecl decl) m = mangleDeclName decl Yes m"
| "mangleDeclContext (DestructorDecl decl) m = mangleDeclName decl No m"
| "mangleDeclContext TopLevelCodeDecl m = Some m"

| "mangleGetterOrSetterContext func m =
    (if \<not> isGetterOrSetter func then None
     else case (case getGetterDecl func of Some G \<Rightarrow> Some G | None \<Rightarrow> getSetterDecl func) of
       None \<Rightarrow> None
     | Some D \<Rightarrow>
         if \<not> (isa_VarDecl D \<or> isa_SubscriptDecl D) then None
         else do {
           m1 \<leftarrow> mangleDeclName D No m;
           m2 \<leftarrow> mangleDeclType D Minimal 0 m1;
           Some (emit (if getGetterDecl func \<noteq> None then ''g'' else ''s'') m2)
         })"

| "bindGenericParameters genericParams mangle m =
    do {
      m1 \<leftarrow> forEach
        (\<lambda>(index, archetype) m.
           if map_of (Archetypes m) (archetype_ptr archetype) \<noteq> None then None
           else let m' = m\<lparr>Archetypes := Archetypes m @
                    [(archetype_ptr archetype, ArchetypeInfo (ArchetypesDepth m) index)]\<rparr>
             in if \<not> mangle then Some m'
                else do {
                  m'' \<leftarrow> mangleProtocolList (getConformsTo archetype) m';
                  Some (emit ''_'' m'')
                })
        (enumerate 0 (getAllArchetypes genericParams))
        (countDepth genericParams m);
      Some (if mangle then emit ''_'' m1 else m1)
    }"

| "manglePolymorphicType genericParams T explosion uncurryLevel mangleAsFunction m =
    do {
      m1 \<leftarrow> bindGenericParameters genericParams True m;
      m2 \<leftarrow> (if mangleAsFunction then
               (case castTo_AnyFunctionType T of
                  None \<Rightarrow> None
                | Some fn \<Rightarrow> mangleFunctionType fn explosion uncurryLevel m1)
             else mangleType T explosion uncurryLevel m1);
      Some (m2\<lparr>ArchetypesDepth := ArchetypesDepth m\<rparr>)
    }"

| "mangleDeclName decl includeType m =
    do {
      m1 \<leftarrow> mangleContextOf decl m;
      m2 \<leftarrow> mangleIdentifier (getName decl) m1;
      if includeType = No then Some m2
      else mangleDeclType decl Minimal 0 m2
    }"

| "mangleDeclType decl explosion uncurryLevel m =
    (let result = ClassifyDecl decl in
     if \<not> (fst result \<or> \<not> snd result) then None
     else do {
       m1 \<leftarrow> (if snd result then
                (case getGenericParamsOfContext decl of
                   None \<Rightarrow> Some m
                 | Some genericParams \<Rightarrow> bindGenericParameters genericParams False m)
              else Some m);
       m2 \<leftarrow> (if fst result then mangleType (getType decl) explosion uncurryLevel m1
              else Some m1);
       Some (m2\<lparr>ArchetypesDepth := ArchetypesDepth m\<rparr>)
     })"

| "mangleType ErrorType explosion uncurryLevel m = None"
| "mangleType UnstructuredUnresolvedType explosion uncurryLevel m = None"
| "mangleType DeducibleGenericParamType explosion uncurryLevel m = None"
| "mangleType TypeVariableType explosion uncurryLevel m = None"
| "mangleType ModuleType explosion uncurryLevel m = None"
| "mangleType (BuiltinFloatType kind) explosion uncurryLevel m =
    (case kind of
       IEEE16 \<Rightarrow> Some (emit ''Bf16_'' m)
     | IEEE32 \<Rightarrow> Some (emit ''Bf32_'' m)
     | IEEE64 \<Rightarrow> Some (emit ''Bf64_'' m)
     | IEEE80 \<Rightarrow> Some (emit ''Bf80_'' m)
     | IEEE128 \<Rightarrow> Some (emit ''Bf128_'' m)
     | PPC128 \<Rightarrow> None)"
| "mangleType (BuiltinIntegerType width) explosion uncurryLevel m =
    Some (emit ''_'' (emit (decimal width) (emit ''Bi'' m)))"
| "mangleType BuiltinRawPointerType explosion uncurryLevel m = Some (emit ''Bp'' m)"
| "mangleType BuiltinOpaquePointerType explosion uncurryLevel m = Some (emit ''Bu'' m)"
| "mangleType BuiltinObjectPointerType explosion uncurryLevel m = Some (emit ''Bo'' m)"
| "mangleType BuiltinObjCPointerType explosion uncurryLevel m = Some (emit ''BO'' m)"
| "mangleType (SugaredType underlying) explosion uncurryLevel m =
    mangleType (getDesugaredType (SugaredType underlying)) explosion uncurryLevel m"
| "mangleType (MetaTypeType instanceType) explosion uncurryLevel m =
    mangleType instanceType Minimal 0 (emit ''M'' m)"
| "mangleType (LValueType objectType) explosion uncurryLevel m =
    mangleType objectType Minimal 0 (emit ''R'' m)"
| "mangleType (TupleType elements) explosion uncurryLevel m =
    do {
      m1 \<leftarrow> forEach
        (\<lambda>field m. do {
           m' \<leftarrow> (case fst field of
                    Some name \<Rightarrow> mangleIdentifier name m
                  | None \<Rightarrow> Some m);
           mangleType (snd field) explosion 0 m'
         })
        elements (emit ''T'' m);
      Some (emit ''_'' m1)
    }"
| "mangleType (OneOfType decl) explosion uncurryLevel m = mangleNominalType decl explosion m"
| "mangleType (ProtocolType decl) explosion uncurryLevel m = mangleNominalType decl explosion m"
| "mangleType (StructType decl) explosion uncurryLevel m = mangleNominalType decl explosion m"
| "mangleType (ClassType decl) explosion uncurryLevel m = mangleNominalType decl explosion m"
| "mangleType (UnboundGenericType decl) explosion uncurryLevel m =
    mangleNominalType decl explosion m"
| "mangleType (BoundGenericClassType decl args) explosion uncurryLevel m =
    do {
      m1 \<leftarrow> mangleNominalType decl explosion (emit ''G'' m);
      m2 \<leftarrow> forEach (\<lambda>arg m. mangleType arg Minimal 0 m) args m1;
      Some (emit ''_'' m2)
    }"
| "mangleType (BoundGenericOneOfType decl args) explosion uncurryLevel m =
    do {
      m1 \<leftarrow> mangleNominalType decl explosion (emit ''G'' m);
      m2 \<leftarrow> forEach (\<lambda>arg m. mangleType arg Minimal 0 m) args m1;
      Some (emit ''_'' m2)
    }"
| "mangleType (BoundGenericStructType decl args) explosion uncurryLevel m =
    do {
      m1 \<leftarrow> mangleNominalType decl explosion (emit ''G'' m);
      m2 \<leftarrow> forEach (\<lambda>arg m. mangleType arg Minimal 0 m) args m1;
      Some (emit ''_'' m2)
    }"
| "mangleType (PolymorphicFunctionType genericParams input result block) explosion uncurryLevel m =
    manglePolymorphicType genericParams
      (PolymorphicFunctionType genericParams input result block) explosion uncurryLevel True
      (emit ''U'' m)"
| "mangleType (ArchetypeType archetype) explosion uncurryLevel m =
    (case map_of (Archetypes m) (archetype_ptr archetype) of
       None \<Rightarrow> None
     | Some info \<Rightarrow>
         if \<not> ArchetypesDepth m \<ge> Depth info then None
         else let relativeDepth = ArchetypesDepth m - Depth info;
                  m1 = emit ''Q'' m;
                  m2 = (if relativeDepth \<noteq> 0
                        then emit (Index (relativeDepth - 1)) (emit ''d'' m1) else m1)
           in Some (emit (Index (ArchetypeInfo.Index info)) m2))"
| "mangleType (FunctionType input result block) explosion uncurryLevel m =
    mangleFunctionType (FunctionType input result block) explosion uncurryLevel m"
| "mangleType (ArrayType count baseType) explosion uncurryLevel m =
    mangleType baseType Minimal 0 (emit (decimal count) (emit ''A'' m))"
| "mangleType (ProtocolCompositionType protocols) explosion uncurryLevel m =
    (if length protocols = 1 then None
     else do {
       m1 \<leftarrow> mangleProtocolList_Type protocols (emit ''P'' m);
       Some (emit ''_'' m1)
     })"

| "mangleProtocolList_Type protocols m =
    forEach
      (\<lambda>protoTy m. case castTo_ProtocolType protoTy of
                      None \<Rightarrow> None
                    | Some decl \<Rightarrow> mangleProtocolName decl m)
      protocols m"

| "mangleProtocolList protocols m =
    forEach (\<lambda>protocol m. mangleProtocolName protocol m) protocols m"

| "mangleProtocolName protocol m =
    (if getKind protocol \<noteq> DeclKind_Protocol then None
     else let (found, m1) = tryMangleSubstitution (getDeclaredType protocol) m in
       if found then Some m1
       else do {
         m2 \<leftarrow> mangleDeclName protocol No m1;
         Some (addSubstitution (getDeclaredType protocol) m2)
       })"

| "mangleNominalType decl explosion m =
    (let (standard, m1) = tryMangleStandardSubstitution decl m in
     if standard then Some m1
     else let key = getDeclaredType decl;
              (found, m2) = tryMangleSubstitution key m1 in
       if found then Some m2
       else case getSpecifierForNominalType decl of
         None \<Rightarrow> None
       | Some specifier \<Rightarrow> do {
           m3 \<leftarrow> mangleDeclName decl No (emit [specifier] m2);
           Some (addSubstitution key m3)
         })"

| "mangleFunctionType (FunctionType input result block) explosion uncurryLevel m =
    do {
      m1 \<leftarrow> mangleType input explosion 0
              (emit (if block then ''b'' else if uncurryLevel > 0 then ''f'' else ''F'') m);
      mangleType result explosion (if uncurryLevel > 0 then uncurryLevel - 1 else 0) m1
    }"
| "mangleFunctionType (PolymorphicFunctionType genericParams input result block)
      explosion uncurryLevel m =
    do {
      m1 \<leftarrow> mangleType input explosion 0
              (emit (if block then ''b'' else if uncurryLevel > 0 then ''f'' else ''F'') m);
      mangleType result explosion (if uncurryLevel > 0 then uncurryLevel - 1 else 0) m1
    }"
| "mangleFunctionType fn explosion uncurryLevel m = None"
  by pat_completeness auto

termination mangleContextOf
  apply (relation "measure
    (case_sum
      (case_sum
        (case_sum (\<lambda>(decl, m). 4 * size decl)
          (case_sum (\<lambda>(ctx, m). 4 * size ctx) (\<lambda>(func, m). 4 * size func)))
        (case_sum (\<lambda>(params, mangle, m). 4 * size params)
          (case_sum (\<lambda>(params, T, explosion, uncurryLevel, asFunction, m).
                       4 * max (size params) (size T) + (if asFunction then 1 else 3))
            (\<lambda>(decl, includeType, m). 4 * size decl + 1))))
      (case_sum
        (case_sum (\<lambda>(decl, explosion, uncurryLevel, m). 4 * size decl)
          (case_sum (\<lambda>(type, explosion, uncurryLevel, m). 4 * size type + 2)
            (\<lambda>(protocols, m). 4 * size_list size protocols + 3)))
        (case_sum
          (case_sum (\<lambda>(protocols, m). 4 * size_list size protocols + 3)
            (\<lambda>(protocol, m). 4 * size protocol + 2))
          (case_sum (\<lambda>(decl, explosion, m). 4 * size decl + 2)
            (\<lambda>(fn, explosion, uncurryLevel, m). 4 * size fn)))))")
  apply (simp_all add: size_Decl_fields size_Module_parent)
  subgoal for module m x xa y x2 using size_Module_parent [of module x2] by simp
  subgoal for type using size_getCanonicalType [of type] by simp
  subgoal for func x2 using size_Decl_fields(3,4) [of func x2] by (auto split: option.splits)
  subgoal for func m x2 using size_Decl_fields(3,4) [of func x2] by (auto split: option.splits)
  subgoal for genericParams mangle x xa y
    using size_archetypes [of y genericParams] by (auto simp: in_set_enumerate_eq)
  subgoal by auto
  subgoal for genericParams T mangleAsFunction m a x2
    using size_castTo_AnyFunctionType [of T x2] by auto
  subgoal for decl using size_Decl_fields(2) [of decl] by simp
  subgoal for underlying using size_getDesugaredType [of underlying] by simp
  subgoal for elements x
    using size_list_estimation' [of x elements "size (snd x)" "size_prod (\<lambda>x. 0) size"]
    by (simp add: size_prod_simp)
  subgoal for decl args explosion m a x
    using size_list_estimation' [of x args "size x" size] by simp
  subgoal for decl args explosion m a x
    using size_list_estimation' [of x args "size x" size] by simp
  subgoal for decl args explosion m a x
    using size_list_estimation' [of x args "size x" size] by simp
  subgoal for protocols x x2
    using size_list_estimation' [of x protocols "size x" size] size_castTo_ProtocolType [of x x2]
    by simp
  subgoal for protocols x
    using size_list_estimation' [of x protocols "size x" size] by simp
  done

text \<open>
  The equations of the methods that are not defined by cases on a constructor are unfolded
  by hand, where a proof needs them.
\<close>

declare mangleContextOf.simps [simp del]
declare mangleGetterOrSetterContext.simps [simp del]
declare bindGenericParameters.simps [simp del]
declare manglePolymorphicType.simps [simp del]
declare mangleDeclName.simps [simp del]
declare mangleDeclType.simps [simp del]
declare mangleProtocolList_Type.simps [simp del]
declare mangleProtocolList.simps [simp del]
declare mangleProtocolName.simps [simp del]
declare mangleNominalType.simps [simp del]

lemmas mangler_induct =
  mangleContextOf_mangleDeclContext_mangleGetterOrSetterContext_bindGenericParameters_manglePolymorphicType_mangleDeclName_mangleDeclType_mangleType_mangleProtocolList_Type_mangleProtocolList_mangleProtocolName_mangleNominalType_mangleFunctionType.induct

text \<open>\<^verbatim>\<open>Mangler::mangleEntity\<close>\<close>

definition mangleEntity :: "Decl \<Rightarrow> ExplosionKind \<Rightarrow> nat \<Rightarrow> Mangler \<Rightarrow> Mangler option" where
  "mangleEntity decl explosion uncurryLevel m =
    do {
      m1 \<leftarrow> mangleDeclName decl No m;
      mangleDeclType decl explosion uncurryLevel m1
    }"

datatype ConstructorKind = Allocating | Initializing

datatype DestructorKind = Deallocating | Destroying

datatype ValueWitness =
    AllocateBuffer | AssignWithCopy | AssignWithTake | DeallocateBuffer | Destroy
  | DestroyBuffer | InitializeBufferWithCopyOfBuffer | InitializeBufferWithCopy
  | InitializeWithCopy | InitializeBufferWithTake | InitializeWithTake | ProjectBuffer
  | Size | Alignment | Stride

definition mangleConstructorKind :: "ConstructorKind \<Rightarrow> char" where
  "mangleConstructorKind kind = (case kind of Allocating \<Rightarrow> CHR ''C'' | Initializing \<Rightarrow> CHR ''c'')"

definition mangleValueWitness :: "ValueWitness \<Rightarrow> string option" where
  "mangleValueWitness witness =
    (case witness of
       AllocateBuffer \<Rightarrow> Some ''al''
     | AssignWithCopy \<Rightarrow> Some ''ac''
     | AssignWithTake \<Rightarrow> Some ''at''
     | DeallocateBuffer \<Rightarrow> Some ''de''
     | Destroy \<Rightarrow> Some ''xx''
     | DestroyBuffer \<Rightarrow> Some ''XX''
     | InitializeBufferWithCopyOfBuffer \<Rightarrow> Some ''CP''
     | InitializeBufferWithCopy \<Rightarrow> Some ''Cp''
     | InitializeWithCopy \<Rightarrow> Some ''cp''
     | InitializeBufferWithTake \<Rightarrow> Some ''Tk''
     | InitializeWithTake \<Rightarrow> Some ''tk''
     | ProjectBuffer \<Rightarrow> Some ''pr''
     | Size \<Rightarrow> None
     | Alignment \<Rightarrow> None
     | Stride \<Rightarrow> None)"

definition mangleDirectness :: "bool \<Rightarrow> Mangler \<Rightarrow> Mangler" where
  "mangleDirectness isIndirect m = emit (if isIndirect then ''i'' else ''d'') m"

section \<open>Link entities\<close>

text \<open>
  \<^verbatim>\<open>LinkEntity\<close> is declared in \<^verbatim>\<open>Linking.h\<close>, outside the sources at hand: a tagged
  request. Each kind below carries what \<^verbatim>\<open>LinkEntity::mangle\<close> reads of it through the
  accessors \<^verbatim>\<open>getDecl\<close>, \<^verbatim>\<open>getType\<close>, \<^verbatim>\<open>getExplosionKind\<close>, \<^verbatim>\<open>getUncurryLevel\<close>,
  \<^verbatim>\<open>isLocalLinkage\<close> and the kind's own flags. An anonymous function is known by the
  address of its function expression.
\<close>

datatype LinkEntity =
    AnonymousFunction ptr
  | ValueWitness Type ValueWitness
  | ValueWitnessTable Type
  | TypeMangling Type
  | TypeMetadata Type bool bool
  | SwiftMetaclassStub Decl
  | WitnessTableOffset Decl ExplosionKind nat
  | FieldOffset Decl bool
  | BridgeToBlockConverter Type
  | Destructor Decl DestructorKind bool
  | Constructor Decl ConstructorKind ExplosionKind nat bool
  | Function Decl ExplosionKind nat bool
  | Other Decl ExplosionKind nat bool
  | Getter Decl ExplosionKind nat bool
  | Setter Decl ExplosionKind nat bool
  | ObjCClass Decl
  | ObjCMetaclass Decl

text \<open>The part of \<^verbatim>\<open>LinkEntity::mangle\<close> under \<^verbatim>\<open>case Kind::Other\<close>.\<close>

definition mangleOther :: "Decl \<Rightarrow> ExplosionKind \<Rightarrow> nat \<Rightarrow> bool \<Rightarrow> Mangler \<Rightarrow> Mangler option" where
  "mangleOther decl explosion uncurryLevel isLocalLinkage m =
    (case getClangDecl decl of
       Some (DeclaratorDecl name) \<Rightarrow> Some (emit name m)
     | _ \<Rightarrow>
         mangleEntity decl explosion uncurryLevel
           ((if isLocalLinkage then emit ''L'' else id) (emit ''_T'' m)))"

text \<open>\<^verbatim>\<open>LinkEntity::mangle(raw_ostream &)\<close>, on the mangler it constructs over the stream.\<close>

fun LinkEntity_mangle :: "LinkEntity \<Rightarrow> Mangler \<Rightarrow> Mangler option" where
  "LinkEntity_mangle (AnonymousFunction expr) m = Some (emit ''closure'' m)"
| "LinkEntity_mangle (ValueWitness type witness) m =
    (case mangleValueWitness witness of
       None \<Rightarrow> None
     | Some code \<Rightarrow> mangleType type Minimal 0 (emit code (emit ''_Tw'' m)))"
| "LinkEntity_mangle (ValueWitnessTable type) m = mangleType type Minimal 0 (emit ''_TWV'' m)"
| "LinkEntity_mangle (TypeMangling type) m = mangleType type Minimal 0 m"
| "LinkEntity_mangle (TypeMetadata type isMetadataPattern isMetadataIndirect) m =
    mangleType type Minimal 0
      (mangleDirectness isMetadataIndirect
        ((if isMetadataPattern then emit ''P'' else id) (emit ''_TM'' m)))"
| "LinkEntity_mangle (SwiftMetaclassStub decl) m =
    (if \<not> isa_ClassDecl decl then None
     else mangleNominalType decl Minimal (emit ''_TMm'' m))"
| "LinkEntity_mangle (WitnessTableOffset decl explosion uncurryLevel) m =
    mangleEntity decl explosion uncurryLevel (emit ''_TWo'' m)"
| "LinkEntity_mangle (FieldOffset decl isOffsetIndirect) m =
    mangleEntity decl Minimal 0 (mangleDirectness isOffsetIndirect (emit ''_TWv'' m))"
| "LinkEntity_mangle (BridgeToBlockConverter type) m =
    mangleType type Minimal 0 (emit ''_TTb'' m)"
| "LinkEntity_mangle (Destructor decl kind isLocalLinkage) m =
    (if \<not> isa_ClassDecl decl then None
     else do {
       m1 \<leftarrow> mangleDeclContext (NominalTypeDecl decl)
               ((if isLocalLinkage then emit ''L'' else id) (emit ''_T'' m));
       Some (emit (case kind of Deallocating \<Rightarrow> ''D'' | Destroying \<Rightarrow> ''d'') m1)
     })"
| "LinkEntity_mangle (Constructor ctor kind explosion uncurryLevel isLocalLinkage) m =
    (if getKind ctor \<noteq> DeclKind_Constructor then None
     else do {
       m1 \<leftarrow> mangleContextOf ctor ((if isLocalLinkage then emit ''L'' else id) (emit ''_T'' m));
       mangleDeclType ctor explosion uncurryLevel (emit [mangleConstructorKind kind] m1)
     })"
| "LinkEntity_mangle (Function decl explosion uncurryLevel isLocalLinkage) m =
    (if AsmName decl \<noteq> [] then Some (emit (AsmName decl) m)
     else mangleOther decl explosion uncurryLevel isLocalLinkage m)"
| "LinkEntity_mangle (Other decl explosion uncurryLevel isLocalLinkage) m =
    mangleOther decl explosion uncurryLevel isLocalLinkage m"
| "LinkEntity_mangle (Getter decl explosion uncurryLevel isLocalLinkage) m =
    do {
      m1 \<leftarrow> mangleEntity decl explosion uncurryLevel
              ((if isLocalLinkage then emit ''L'' else id) (emit ''_T'' m));
      Some (emit ''g'' m1)
    }"
| "LinkEntity_mangle (Setter decl explosion uncurryLevel isLocalLinkage) m =
    do {
      m1 \<leftarrow> mangleEntity decl explosion uncurryLevel
              ((if isLocalLinkage then emit ''L'' else id) (emit ''_T'' m));
      Some (emit ''s'' m1)
    }"
| "LinkEntity_mangle (ObjCClass decl) m =
    Some (emit (str (getName decl)) (emit ''OBJC_CLASS_$_'' m))"
| "LinkEntity_mangle (ObjCMetaclass decl) m =
    Some (emit (str (getName decl)) (emit ''OBJC_METACLASS_$_'' m))"

text \<open>A fresh \<^verbatim>\<open>Mangler\<close> over a stream that holds \<open>buffer\<close>.\<close>

definition Mangler_init :: "string \<Rightarrow> Mangler" where
  "Mangler_init buffer =
    \<lparr>Buffer = buffer, Substitutions = [], Archetypes = [], ArchetypesDepth = 0\<rparr>"

text \<open>\<^verbatim>\<open>LinkEntity::mangle\<close>: the contents of the stream after the request.\<close>

definition mangle :: "LinkEntity \<Rightarrow> string \<Rightarrow> string option" where
  "mangle entity buffer = map_option Buffer (LinkEntity_mangle entity (Mangler_init buffer))"

section \<open>What every method leaves in place\<close>

text \<open>
  The stream is append-only, the two tables only grow at their end, and every method but
  \<^verbatim>\<open>bindGenericParameters\<close> returns with \<^verbatim>\<open>ArchetypesDepth\<close> as it found it. \<open>frame0\<close>
  is the first part, \<open>frame\<close> adds the depth; \<open>keeps m r\<close> says that the outcome \<open>r\<close> of a
  method started in \<open>m\<close>, when it is a mangler, is framed by \<open>m\<close>.
\<close>

definition frame0 :: "Mangler \<Rightarrow> Mangler \<Rightarrow> bool" where
  "frame0 m m' \<longleftrightarrow> prefix (Buffer m) (Buffer m') \<and> prefix (Substitutions m) (Substitutions m')
     \<and> prefix (Archetypes m) (Archetypes m')"

definition frame :: "Mangler \<Rightarrow> Mangler \<Rightarrow> bool" where
  "frame m m' \<longleftrightarrow> frame0 m m' \<and> ArchetypesDepth m' = ArchetypesDepth m"

definition keeps0 :: "Mangler \<Rightarrow> Mangler option \<Rightarrow> bool" where
  "keeps0 m r \<longleftrightarrow> (\<forall>m'. r = Some m' \<longrightarrow> frame0 m m')"

definition keeps :: "Mangler \<Rightarrow> Mangler option \<Rightarrow> bool" where
  "keeps m r \<longleftrightarrow> (\<forall>m'. r = Some m' \<longrightarrow> frame m m')"

lemma frame0_refl [simp]: "frame0 m m"
  by (simp add: frame0_def)

lemma frame0_trans: "frame0 a b \<Longrightarrow> frame0 b c \<Longrightarrow> frame0 a c"
  by (auto simp: frame0_def)

lemma frame_refl [simp]: "frame m m"
  by (simp add: frame_def)

lemma frame_trans: "frame a b \<Longrightarrow> frame b c \<Longrightarrow> frame a c"
  by (auto simp: frame_def intro: frame0_trans)

lemma frame_imp_frame0: "frame m m' \<Longrightarrow> frame0 m m'"
  by (simp add: frame_def)

lemma frame_emit [simp]: "frame m (emit text m)"
  by (simp add: frame_def frame0_def emit_def)

lemma frame_addSubstitution [simp]: "frame m (addSubstitution p m)"
  by (simp add: frame_def frame0_def addSubstitution_def)

lemma frame0_depth [simp]: "frame0 m (m'\<lparr>ArchetypesDepth := d\<rparr>) = frame0 m m'"
  by (simp add: frame0_def)

lemma frame0_countDepth [simp]: "frame0 m (countDepth params m)"
proof -
  have "frame0 m0 m \<Longrightarrow> frame0 m0 (countDepth params m)" for m0
    by (induction params m rule: countDepth.induct) (auto simp: Let_def frame0_def split: option.splits)
  then show ?thesis by simp
qed

lemma frame_tryMangleSubstitution: "tryMangleSubstitution p m = (found, m') \<Longrightarrow> frame m m'"
  by (auto simp: tryMangleSubstitution_def frame_def frame0_def emit_def split: option.splits if_splits)

lemma frame_tryMangleStandardSubstitution:
  "tryMangleStandardSubstitution decl m = (found, m') \<Longrightarrow> frame m m'"
  by (auto simp: tryMangleStandardSubstitution_def Let_def split: option.splits if_splits)

lemma keepsI: "(\<And>m'. r = Some m' \<Longrightarrow> frame m m') \<Longrightarrow> keeps m r"
  by (simp add: keeps_def)

lemma keepsD: "keeps m r \<Longrightarrow> r = Some m' \<Longrightarrow> frame m m'"
  by (simp add: keeps_def)

lemma keeps_None [simp]: "keeps m None"
  by (simp add: keeps_def)

lemma keeps_Some [simp]: "keeps m (Some m') \<longleftrightarrow> frame m m'"
  by (simp add: keeps_def)

lemma keeps_bind:
  "keeps m r \<Longrightarrow> (\<And>m1. r = Some m1 \<Longrightarrow> keeps m1 (f m1)) \<Longrightarrow> keeps m (r \<bind> f)"
  by (auto simp: keeps_def bind_eq_Some_conv intro: frame_trans)

lemma keeps_pre: "frame m m1 \<Longrightarrow> keeps m1 r \<Longrightarrow> keeps m r"
  by (auto simp: keeps_def intro: frame_trans)

lemma keeps_emit: "keeps (emit out m) r \<Longrightarrow> keeps m r"
  by (rule keeps_pre [OF frame_emit])

lemma keeps_forEach:
  "(\<And>x s. x \<in> set xs \<Longrightarrow> keeps s (f x s)) \<Longrightarrow> keeps m (forEach f xs m)"
proof (induction xs arbitrary: m)
  case Nil
  then show ?case by simp
next
  case (Cons x xs)
  have "keeps m (f x m \<bind> forEach f xs)"
    by (rule keeps_bind) (simp_all add: Cons)
  moreover have "forEach f (x # xs) m = f x m \<bind> forEach f xs"
    by (simp split: option.splits)
  ultimately show ?case by simp
qed

lemma keeps_mangleIdentifier [simp]: "keeps m (mangleIdentifier ident m)"
proof -
  have step: "keeps s (map_option (\<lambda>op. emit [op] s) r)" for s r
    by (cases r) simp_all
  have "keeps (emit (decimal (length (str ident))) (emit ''op'' m))
     (forEach (\<lambda>c m. map_option (\<lambda>op. emit [op] m) (mangleOperatorChar c)) (str ident)
        (emit (decimal (length (str ident))) (emit ''op'' m)))"
    by (rule keeps_forEach) (rule step)
  then have "keeps m
     (forEach (\<lambda>c m. map_option (\<lambda>op. emit [op] m) (mangleOperatorChar c)) (str ident)
        (emit (decimal (length (str ident))) (emit ''op'' m)))"
    by (rule keeps_emit [OF keeps_emit])
  then show ?thesis
    unfolding mangleIdentifier_def by simp
qed

lemma keeps0I: "(\<And>m'. r = Some m' \<Longrightarrow> frame0 m m') \<Longrightarrow> keeps0 m r"
  by (simp add: keeps0_def)

lemma keeps0D: "keeps0 m r \<Longrightarrow> r = Some m' \<Longrightarrow> frame0 m m'"
  by (simp add: keeps0_def)

lemma keeps0_of_keeps: "keeps m r \<Longrightarrow> keeps0 m r"
  by (auto simp: keeps_def keeps0_def frame_def)

lemma keeps0_None [simp]: "keeps0 m None"
  by (simp add: keeps0_def)

lemma keeps0_Some [simp]: "keeps0 m (Some m') \<longleftrightarrow> frame0 m m'"
  by (simp add: keeps0_def)

lemma keeps_restore:
  assumes "keeps0 m r" and "\<And>m1. r = Some m1 \<Longrightarrow> keeps m1 (f m1)"
  shows "keeps m (r \<bind> (\<lambda>m1. f m1 \<bind>
          (\<lambda>m2. Some (m2\<lparr>ArchetypesDepth := ArchetypesDepth m\<rparr>))))"
proof (rule keepsI)
  fix m'
  assume "r \<bind> (\<lambda>m1. f m1 \<bind>
          (\<lambda>m2. Some (m2\<lparr>ArchetypesDepth := ArchetypesDepth m\<rparr>))) = Some m'"
  then obtain m1 m2 where 1: "r = Some m1" and 2: "f m1 = Some m2"
    and 3: "m' = m2\<lparr>ArchetypesDepth := ArchetypesDepth m\<rparr>"
    by (auto simp: bind_eq_Some_conv)
  have "frame0 m m1" using assms(1) 1 by (simp add: keeps0_def)
  moreover have "frame0 m1 m2" using assms(2) [OF 1] 2 by (simp add: keeps_def frame_def)
  ultimately have "frame0 m m2" by (rule frame0_trans)
  then show "frame m m'" by (simp add: 3 frame_def)
qed

lemma keeps0_after:
  assumes "frame0 m m0" and "keeps m0 r"
  shows "keeps0 m (r \<bind> (\<lambda>m1. Some (if c then emit text m1 else m1)))"
proof (rule keeps0I)
  fix m'
  assume "r \<bind> (\<lambda>m1. Some (if c then emit text m1 else m1)) = Some m'"
  then obtain m1 where 1: "r = Some m1" and 2: "m' = (if c then emit text m1 else m1)"
    by (auto simp: bind_eq_Some_conv)
  have "frame0 m0 m1" using assms(2) 1 by (simp add: keeps_def frame_def)
  with assms(1) have "frame0 m m1" by (rule frame0_trans)
  then show "frame0 m m'" by (simp add: 2 frame0_def emit_def)
qed

lemma frame_emitI [simp]: "frame m m' \<Longrightarrow> frame m (emit text m')"
  by (rule frame_trans [OF _ frame_emit])

lemma frame0_emitI [simp]: "frame0 m m' \<Longrightarrow> frame0 m (emit text m')"
  by (simp add: frame0_def emit_def)

lemma frame_add_archetype [simp]: "frame m (m\<lparr>Archetypes := Archetypes m @ entries\<rparr>)"
  by (simp add: frame_def frame0_def)

lemma mangler_frame:
  "keeps m1 (mangleContextOf decl1 m1)"
  "keeps m2 (mangleDeclContext ctx2 m2)"
  "keeps m3 (mangleGetterOrSetterContext func3 m3)"
  "keeps0 m4 (bindGenericParameters params4 mangle4 m4)"
  "keeps m5 (manglePolymorphicType params5 T5 explosion5 level5 asFunction5 m5)"
  "keeps m6 (mangleDeclName decl6 include6 m6)"
  "keeps m7 (mangleDeclType decl7 explosion7 level7 m7)"
  "keeps m8 (mangleType type8 explosion8 level8 m8)"
  "keeps m9 (mangleProtocolList_Type types9 m9)"
  "keeps m10 (mangleProtocolList decls10 m10)"
  "keeps m11 (mangleProtocolName decl11 m11)"
  "keeps m12 (mangleNominalType decl12 explosion12 m12)"
  "keeps m13 (mangleFunctionType fn13 explosion13 level13 m13)"
proof (induction decl1 m1 and ctx2 m2 and func3 m3 and params4 mangle4 m4
    and params5 T5 explosion5 level5 asFunction5 m5 and decl6 include6 m6
    and decl7 explosion7 level7 m7 and type8 explosion8 level8 m8 and types9 m9
    and decls10 m10 and decl11 m11 and decl12 explosion12 m12
    and fn13 explosion13 level13 m13 rule: mangler_induct)
  case (1 decl m)
  then show ?case
    by (subst mangleContextOf.simps) auto
next
  case (4 module m)
  obtain found m1 where t: "tryMangleSubstitution (module_ptr module) m = (found, m1)"
    by (cases "tryMangleSubstitution (module_ptr module) m")
  have f: "frame m m1" using t by (rule frame_tryMangleSubstitution)
  show ?case
  proof (cases "isSwiftModule module \<or> found")
    case True
    then show ?thesis using t f by auto
  next
    case False
    then have "keeps m1 (case getParent module of None \<Rightarrow> Some m1
                | Some parent \<Rightarrow> mangleDeclContext parent m1)"
      using 4 [OF _ refl t [symmetric]] by (auto split: option.splits)
    then have "keeps m1 ((case getParent module of None \<Rightarrow> Some m1
                | Some parent \<Rightarrow> mangleDeclContext parent m1) \<bind>
             (\<lambda>m2. mangleIdentifier (Name module) m2 \<bind>
                (\<lambda>m3. Some (addSubstitution (module_ptr module) m3))))"
      by (intro keeps_bind) simp_all
    then show ?thesis using False t f by (auto intro: keeps_pre)
  qed
next
  case (13 func m)
  show ?case
    by (subst mangleGetterOrSetterContext.simps)
      (auto split: option.splits intro!: keeps_bind 13)
next
  case (16 decl includeType m)
  show ?case
    by (subst mangleDeclName.simps) (auto intro!: keeps_bind 16)
next
  case (14 genericParams mangle m)
  have "keeps (countDepth genericParams m)
     (forEach
        (\<lambda>(index, archetype) m.
           if map_of (Archetypes m) (archetype_ptr archetype) \<noteq> None then None
           else let m' = m\<lparr>Archetypes := Archetypes m @
                    [(archetype_ptr archetype, ArchetypeInfo (ArchetypesDepth m) index)]\<rparr>
             in if \<not> mangle then Some m'
                else do {
                  m'' \<leftarrow> mangleProtocolList (getConformsTo archetype) m';
                  Some (emit ''_'' m'')
                })
        (enumerate 0 (getAllArchetypes genericParams))
        (countDepth genericParams m))"
  proof (rule keeps_forEach)
    fix x s
    assume x: "x \<in> set (enumerate 0 (getAllArchetypes genericParams))"
    obtain index archetype where p: "x = (index, archetype)" by (cases x)
    show "keeps s
      ((case x of (index, archetype) \<Rightarrow> \<lambda>m.
           if map_of (Archetypes m) (archetype_ptr archetype) \<noteq> None then None
           else let m' = m\<lparr>Archetypes := Archetypes m @
                    [(archetype_ptr archetype, ArchetypeInfo (ArchetypesDepth m) index)]\<rparr>
             in if \<not> mangle then Some m'
                else do {
                  m'' \<leftarrow> mangleProtocolList (getConformsTo archetype) m';
                  Some (emit ''_'' m'')
                }) s)"
    proof (cases "map_of (Archetypes s) (archetype_ptr archetype) \<noteq> None \<or> \<not> mangle")
      case True
      then show ?thesis by (auto simp: p Let_def)
    next
      case False
      let ?s = "s\<lparr>Archetypes := Archetypes s @
                    [(archetype_ptr archetype, ArchetypeInfo (ArchetypesDepth s) index)]\<rparr>"
      have "keeps ?s (mangleProtocolList (getConformsTo archetype) ?s)"
        using 14 [OF x p [symmetric] _ refl, of s] False by simp
      then have "keeps ?s (mangleProtocolList (getConformsTo archetype) ?s \<bind>
          (\<lambda>m''. Some (emit ''_'' m'')))"
        by (rule keeps_bind) simp
      then have "keeps s (mangleProtocolList (getConformsTo archetype) ?s \<bind>
          (\<lambda>m''. Some (emit ''_'' m'')))"
        by (rule keeps_pre [OF frame_add_archetype])
      then show ?thesis using False by (simp add: p Let_def)
    qed
  qed
  then show ?case
    by (subst bindGenericParameters.simps) (rule keeps0_after [OF frame0_countDepth])
next
  case (15 genericParams T explosion uncurryLevel mangleAsFunction m)
  show ?case
    by (subst manglePolymorphicType.simps, rule keeps_restore, rule 15(1))
      (auto split: option.splits intro: 15)
next
  case (17 decl explosion uncurryLevel m)
  show ?case
  proof (cases "fst (ClassifyDecl decl) \<or> \<not> snd (ClassifyDecl decl)")
    case False
    then show ?thesis by (subst mangleDeclType.simps) (simp add: Let_def)
  next
    case True
    have "keeps m
      ((if snd (ClassifyDecl decl) then
          (case getGenericParamsOfContext decl of
             None \<Rightarrow> Some m
           | Some genericParams \<Rightarrow> bindGenericParameters genericParams False m)
        else Some m) \<bind>
       (\<lambda>m1. (if fst (ClassifyDecl decl)
              then mangleType (getType decl) explosion uncurryLevel m1 else Some m1) \<bind>
          (\<lambda>m2. Some (m2\<lparr>ArchetypesDepth := ArchetypesDepth m\<rparr>))))"
    proof (rule keeps_restore)
      show "keeps0 m
        (if snd (ClassifyDecl decl) then
          (case getGenericParamsOfContext decl of
             None \<Rightarrow> Some m
           | Some genericParams \<Rightarrow> bindGenericParameters genericParams False m)
        else Some m)"
        using True by (auto split: option.splits intro: 17(1))
    next
      fix m1
      assume r: "(if snd (ClassifyDecl decl) then
          (case getGenericParamsOfContext decl of
             None \<Rightarrow> Some m
           | Some genericParams \<Rightarrow> bindGenericParameters genericParams False m)
        else Some m) = Some m1"
      show "keeps m1 (if fst (ClassifyDecl decl)
              then mangleType (getType decl) explosion uncurryLevel m1 else Some m1)"
        using 17(2) [OF refl _ r] True by simp
    qed
    then show ?thesis
      using True by (subst mangleDeclType.simps) (simp only: Let_def not_not not_True_eq_False if_False)
  qed
next
  case (23 kind explosion uncurryLevel m)
  show ?case by (cases kind) simp_all
next
  case (30 instanceType explosion uncurryLevel m)
  then show ?case by simp (erule keeps_emit)
next
  case (31 objectType explosion uncurryLevel m)
  then show ?case by simp (erule keeps_emit)
next
  case (32 elements explosion uncurryLevel m)
  show ?case
    apply (simp only: mangleType.simps)
    apply (rule keeps_emit [where out = "''T''"])
    apply (rule keeps_bind)
     apply (rule keeps_forEach)
     apply (rule keeps_bind)
      apply (simp split: option.splits)
     apply (erule (1) 32)
    apply simp
    done
next
  case (38 decl args explosion uncurryLevel m)
  show ?case
    apply (simp only: mangleType.simps)
    apply (rule keeps_emit [where out = "''G''"])
    apply (rule keeps_bind)
     apply (rule 38(1))
    apply (rule keeps_bind)
     apply (rule keeps_forEach)
     apply (erule (1) 38(2))
    apply simp
    done
next
  case (39 decl args explosion uncurryLevel m)
  show ?case
    apply (simp only: mangleType.simps)
    apply (rule keeps_emit [where out = "''G''"])
    apply (rule keeps_bind)
     apply (rule 39(1))
    apply (rule keeps_bind)
     apply (rule keeps_forEach)
     apply (erule (1) 39(2))
    apply simp
    done
next
  case (40 decl args explosion uncurryLevel m)
  show ?case
    apply (simp only: mangleType.simps)
    apply (rule keeps_emit [where out = "''G''"])
    apply (rule keeps_bind)
     apply (rule 40(1))
    apply (rule keeps_bind)
     apply (rule keeps_forEach)
     apply (erule (1) 40(2))
    apply simp
    done
next
  case (41 genericParams input result block explosion uncurryLevel m)
  then show ?case by simp (erule keeps_emit)
next
  case (42 archetype explosion uncurryLevel m)
  show ?case by (auto simp: Let_def split: option.splits)
next
  case (44 count baseType explosion uncurryLevel m)
  then show ?case by simp (rule keeps_emit [OF keeps_emit])
next
  case (45 protocols explosion uncurryLevel m)
  show ?case
  proof (cases "length protocols = 1")
    case True
    then show ?thesis by simp
  next
    case False
    have "keeps m (mangleProtocolList_Type protocols (emit ''P'' m) \<bind>
        (\<lambda>m1. Some (emit ''_'' m1)))"
      by (rule keeps_emit [where out = "''P''"], rule keeps_bind, rule 45 [OF False]) simp
    then show ?thesis using False by simp
  qed
next
  case (46 protocols m)
  show ?case
    by (subst mangleProtocolList_Type.simps, rule keeps_forEach)
      (auto split: option.splits intro: 46)
next
  case (47 protocols m)
  show ?case
    by (subst mangleProtocolList.simps, rule keeps_forEach) (rule 47)
next
  case (48 protocol m)
  obtain found m1 where t: "tryMangleSubstitution (getDeclaredType protocol) m = (found, m1)"
    by (cases "tryMangleSubstitution (getDeclaredType protocol) m")
  have f: "frame m m1" using t by (rule frame_tryMangleSubstitution)
  show ?case
  proof (cases "getKind protocol \<noteq> DeclKind_Protocol \<or> found")
    case True
    then show ?thesis using t f by (subst mangleProtocolName.simps) auto
  next
    case False
    then have "keeps m1 (mangleDeclName protocol No m1)"
      using 48 [OF _ refl t [symmetric]] by auto
    then have "keeps m1 (mangleDeclName protocol No m1 \<bind>
        (\<lambda>m2. Some (addSubstitution (getDeclaredType protocol) m2)))"
      by (intro keeps_bind) simp_all
    then show ?thesis
      using False t f by (subst mangleProtocolName.simps) (auto intro: keeps_pre)
  qed
next
  case (49 decl explosion m)
  obtain standard m1 where t1: "tryMangleStandardSubstitution decl m = (standard, m1)"
    by (cases "tryMangleStandardSubstitution decl m")
  obtain found m2 where t2: "tryMangleSubstitution (getDeclaredType decl) m1 = (found, m2)"
    by (cases "tryMangleSubstitution (getDeclaredType decl) m1")
  have f: "frame m m1" "frame m1 m2"
    using t1 t2 frame_tryMangleStandardSubstitution frame_tryMangleSubstitution by blast+
  then have f2: "frame m m2" by (rule frame_trans)
  show ?case
  proof (cases "standard \<or> found \<or> getSpecifierForNominalType decl = None")
    case True
    then show ?thesis using t1 t2 f f2 by (subst mangleNominalType.simps) (auto simp: Let_def)
  next
    case False
    then obtain specifier where sp: "getSpecifierForNominalType decl = Some specifier" by auto
    have "keeps (emit [specifier] m2) (mangleDeclName decl No (emit [specifier] m2))"
      using 49 [OF refl t1 [symmetric] _ refl refl t2 [symmetric] _ sp] False by auto
    then have "keeps (emit [specifier] m2) (mangleDeclName decl No (emit [specifier] m2) \<bind>
        (\<lambda>m3. Some (addSubstitution (getDeclaredType decl) m3)))"
      by (intro keeps_bind) simp_all
    then have "keeps m2 (mangleDeclName decl No (emit [specifier] m2) \<bind>
        (\<lambda>m3. Some (addSubstitution (getDeclaredType decl) m3)))"
      by (rule keeps_emit)
    then have "keeps m (mangleDeclName decl No (emit [specifier] m2) \<bind>
        (\<lambda>m3. Some (addSubstitution (getDeclaredType decl) m3)))"
      using f2 by (rule keeps_pre [rotated])
    then show ?thesis
      using False t1 t2 sp by (subst mangleNominalType.simps) (auto simp: Let_def)
  qed
next
  case (50 input result block explosion uncurryLevel m)
  show ?case
    by (simp only: mangleFunctionType.simps)
      (rule keeps_emit, rule keeps_bind, rule 50(1), erule 50(2))
next
  case (51 genericParams input result block explosion uncurryLevel m)
  show ?case
    by (simp only: mangleFunctionType.simps)
      (rule keeps_emit, rule keeps_bind, rule 51(1), erule 51(2))
qed simp_all

section \<open>The explosion kind is never written\<close>

text \<open>
  No method looks at the explosion kind it is given: it only hands it on. Every method gives
  what it gives at minimal explosion.
\<close>

lemma mangler_explosion:
  "mangleContextOf decl1 m1 = mangleContextOf decl1 m1"
  "mangleDeclContext ctx2 m2 = mangleDeclContext ctx2 m2"
  "mangleGetterOrSetterContext func3 m3 = mangleGetterOrSetterContext func3 m3"
  "bindGenericParameters params4 mangle4 m4 = bindGenericParameters params4 mangle4 m4"
  "manglePolymorphicType params5 T5 explosion5 level5 asFunction5 m5 =
     manglePolymorphicType params5 T5 Minimal level5 asFunction5 m5"
  "mangleDeclName decl6 include6 m6 = mangleDeclName decl6 include6 m6"
  "mangleDeclType decl7 explosion7 level7 m7 = mangleDeclType decl7 Minimal level7 m7"
  "mangleType type8 explosion8 level8 m8 = mangleType type8 Minimal level8 m8"
  "mangleProtocolList_Type types9 m9 = mangleProtocolList_Type types9 m9"
  "mangleProtocolList decls10 m10 = mangleProtocolList decls10 m10"
  "mangleProtocolName decl11 m11 = mangleProtocolName decl11 m11"
  "mangleNominalType decl12 explosion12 m12 = mangleNominalType decl12 Minimal m12"
  "mangleFunctionType fn13 explosion13 level13 m13 = mangleFunctionType fn13 Minimal level13 m13"
proof (induction decl1 m1 and ctx2 m2 and func3 m3 and params4 mangle4 m4
    and params5 T5 explosion5 level5 asFunction5 m5 and decl6 include6 m6
    and decl7 explosion7 level7 m7 and type8 explosion8 level8 m8 and types9 m9
    and decls10 m10 and decl11 m11 and decl12 explosion12 m12
    and fn13 explosion13 level13 m13 rule: mangler_induct)
  case (15 genericParams T explosion uncurryLevel mangleAsFunction m)
  have inner: "(if mangleAsFunction then
               (case castTo_AnyFunctionType T of
                  None \<Rightarrow> None
                | Some fn \<Rightarrow> mangleFunctionType fn explosion uncurryLevel a)
             else mangleType T explosion uncurryLevel a) =
          (if mangleAsFunction then
               (case castTo_AnyFunctionType T of
                  None \<Rightarrow> None
                | Some fn \<Rightarrow> mangleFunctionType fn Minimal uncurryLevel a)
             else mangleType T Minimal uncurryLevel a)"
    if "bindGenericParameters genericParams True m = Some a" for a
    using 15(2,3) [OF that] by (auto split: option.splits)
  show ?case
    by (simp only: manglePolymorphicType.simps [of _ _ explosion]
        manglePolymorphicType.simps [of _ _ Minimal])
      (rule Option.bind_cong [OF refl], simp only: inner)
next
  case (17 decl explosion uncurryLevel m)
  have inner: "(if fst (ClassifyDecl decl)
          then mangleType (getType decl) explosion uncurryLevel a else Some a) =
        (if fst (ClassifyDecl decl)
          then mangleType (getType decl) Minimal uncurryLevel a else Some a)"
    if "fst (ClassifyDecl decl) \<or> \<not> snd (ClassifyDecl decl)"
      and "(if snd (ClassifyDecl decl) then
          (case getGenericParamsOfContext decl of
             None \<Rightarrow> Some m
           | Some genericParams \<Rightarrow> bindGenericParameters genericParams False m)
        else Some m) = Some a" for a
    using 17(2) [OF refl _ that(2)] that(1) by simp
  show ?case
  proof (cases "fst (ClassifyDecl decl) \<or> \<not> snd (ClassifyDecl decl)")
    case False
    then show ?thesis
      by (simp only: mangleDeclType.simps [of _ explosion] mangleDeclType.simps [of _ Minimal]
          Let_def) simp
  next
    case True
    show ?thesis
      by (simp only: mangleDeclType.simps [of _ explosion] mangleDeclType.simps [of _ Minimal]
          Let_def True not_True_eq_False if_False)
        (rule Option.bind_cong [OF refl], simp only: inner [OF True])
  qed
next
  case (32 elements explosion uncurryLevel m)
  have "forEach
        (\<lambda>field m. do {
           m' \<leftarrow> (case fst field of
                    Some name \<Rightarrow> mangleIdentifier name m
                  | None \<Rightarrow> Some m);
           mangleType (snd field) explosion 0 m'
         })
        elements (emit ''T'' m) =
     forEach
        (\<lambda>field m. do {
           m' \<leftarrow> (case fst field of
                    Some name \<Rightarrow> mangleIdentifier name m
                  | None \<Rightarrow> Some m);
           mangleType (snd field) Minimal 0 m'
         })
        elements (emit ''T'' m)"
    by (intro forEach_cong Option.bind_cong refl) (rule 32)
  then show ?case by simp
next
  case (49 decl explosion m)
  show ?case
    unfolding mangleNominalType.simps [of _ explosion] mangleNominalType.simps [of _ Minimal] ..
next
  case (50 input result block explosion uncurryLevel m)
  show ?case
    unfolding mangleFunctionType.simps
    by (rule Option.bind_cong [OF 50(1)]) (rule 50(2), simp add: 50(1))
next
  case (51 genericParams input result block explosion uncurryLevel m)
  show ?case
    unfolding mangleFunctionType.simps
    by (rule Option.bind_cong [OF 51(1)]) (rule 51(2), simp add: 51(1))
qed simp_all

section \<open>Evaluating the mangler on a given input\<close>

lemmas mangler_eval =
  mangleContextOf.simps mangleGetterOrSetterContext.simps bindGenericParameters.simps
  manglePolymorphicType.simps mangleDeclName.simps mangleDeclType.simps
  mangleProtocolList_Type.simps mangleProtocolList.simps mangleProtocolName.simps
  mangleNominalType.simps mangleEntity_def mangleOther_def mangle_def Mangler_init_def
  emit_def mangleIdentifier_def tryMangleSubstitution_def addSubstitution_def
  tryMangleStandardSubstitution_def getSpecifierForNominalType_def ClassifyDecl_def
  isSwiftModule_def isGetterOrSetter_def mangleDirectness_def mangleValueWitness_def
  mangleConstructorKind_def castTo_AnyFunctionType_def castTo_ProtocolType_def
  Index_def decimal.simps digit_char_def mangleOperatorChar.simps Let_def enumerate_eq_zip

section \<open>Sugar\<close>

lemma getDesugaredType_not_sugar: "getDesugaredType t \<noteq> SugaredType x"
  by (induction t rule: getDesugaredType.induct) auto

lemma getDesugaredType_idem [simp]: "getDesugaredType (getDesugaredType t) = getDesugaredType t"
  by (induction t rule: getDesugaredType.induct) auto

lemma getDesugaredType_funpow [simp]:
  "getDesugaredType ((SugaredType ^^ n) t) = getDesugaredType t"
  by (induction n) auto

lemma mangleType_getDesugaredType:
  "mangleType t explosion uncurryLevel m = mangleType (getDesugaredType t) explosion uncurryLevel m"
  by (cases t) simp_all

text \<open>
  C7. Alias transparency: for every type, explosion kind and uncurry level, mangling a type
  written with sugar gives what mangling its desugared form gives, from any state of the
  mangler; so does mangling the type under any number of further sugar wrappers.
\<close>

theorem alias_transparency:
  "mangleType t explosion uncurryLevel m =
     mangleType (getDesugaredType t) explosion uncurryLevel m
   \<and> mangleType ((SugaredType ^^ n) t) explosion uncurryLevel m =
     mangleType t explosion uncurryLevel m"
proof -
  have "mangleType ((SugaredType ^^ n) t) explosion uncurryLevel m =
      mangleType (getDesugaredType t) explosion uncurryLevel m"
    using mangleType_getDesugaredType [of "(SugaredType ^^ n) t"] by simp
  then show ?thesis
    using mangleType_getDesugaredType [of t] by simp
qed

section \<open>Function types\<close>

lemma frame_emit_first:
  "frame (emit (c # cs) m) m' \<Longrightarrow> \<exists>rest. Buffer m' = Buffer m @ c # rest"
  by (auto simp: frame_def frame0_def emit_def prefix_def)

lemma mangleFunctionType_first:
  assumes "mangleType input explosion 0 (emit [c] m) \<bind> mangleType result explosion level = Some m'"
  shows "\<exists>rest. Buffer m' = Buffer m @ c # rest"
proof -
  have "keeps (emit [c] m)
      (mangleType input explosion 0 (emit [c] m) \<bind> mangleType result explosion level)"
    by (intro keeps_bind mangler_frame)
  then show ?thesis using assms by (auto dest: keepsD frame_emit_first)
qed

text \<open>
  C6. Function-type markers: the block check comes first and gives \<open>b\<close> whatever the uncurry
  level; otherwise level 0 gives \<open>F\<close> and a level above 0 gives \<open>f\<close>. The argument type is
  mangled at level 0 and the result type at the level decremented by one (0 stays 0). The
  marker is the first byte the function type appends.
\<close>

theorem function_type_markers:
  "mangleType (FunctionType input result block) explosion uncurryLevel m =
     mangleType input explosion 0
       (emit (if block then ''b'' else if uncurryLevel = 0 then ''F'' else ''f'') m) \<bind>
     mangleType result explosion (uncurryLevel - 1)
   \<and> mangleFunctionType (PolymorphicFunctionType params input result block)
       explosion uncurryLevel m =
     mangleType input explosion 0
       (emit (if block then ''b'' else if uncurryLevel = 0 then ''F'' else ''f'') m) \<bind>
     mangleType result explosion (uncurryLevel - 1)
   \<and> (\<forall>m'. mangleType (FunctionType input result block) explosion uncurryLevel m = Some m' \<longrightarrow>
        (\<exists>rest. Buffer m' = Buffer m @
           (if block then CHR ''b'' else if uncurryLevel = 0 then CHR ''F'' else CHR ''f'') # rest))"
  by (auto dest: mangleFunctionType_first)

theorem function_type_markers_witness:
  "mangleType (FunctionType BuiltinRawPointerType
       (FunctionType BuiltinRawPointerType BuiltinRawPointerType False) False) Maximal 1
     (Mangler_init []) =
   Some \<lparr>Buffer = ''fBpFBpBp'', Substitutions = [], Archetypes = [], ArchetypesDepth = 0\<rparr>
   \<and> (\<exists>rest. ''fBpFBpBp'' = CHR ''f'' # rest)"
  using function_type_markers [of BuiltinRawPointerType
      "FunctionType BuiltinRawPointerType BuiltinRawPointerType False" False Maximal 1
      "Mangler_init []"]
  by (simp add: mangler_eval)

section \<open>Explosion kind and uncurry level below the head of a type\<close>

fun isa_AnyFunctionType :: "Type \<Rightarrow> bool" where
  "isa_AnyFunctionType (FunctionType input result block) = True"
| "isa_AnyFunctionType (PolymorphicFunctionType params input result block) = True"
| "isa_AnyFunctionType t = False"

lemma mangleType_level_irrelevant:
  "\<not> isa_AnyFunctionType (getDesugaredType t) \<Longrightarrow>
    mangleType t explosion uncurryLevel m = mangleType t explosion 0 m"
proof -
  assume a: "\<not> isa_AnyFunctionType (getDesugaredType t)"
  have "mangleType (getDesugaredType t) explosion uncurryLevel m =
      mangleType (getDesugaredType t) explosion 0 m"
    using a by (cases "getDesugaredType t") (simp_all add: getDesugaredType_not_sugar)
  then show ?thesis
    using mangleType_getDesugaredType [of t explosion uncurryLevel m]
      mangleType_getDesugaredType [of t explosion 0 m] by simp
qed




section \<open>Archetype references\<close>

lemma emit_emit [simp]: "emit b (emit a m) = emit (a @ b) m"
  by (simp add: emit_def)

text \<open>
  The archetype reference as the specification words it: the depth delta and the index both
  go through the compact index grammar \<open>Index\<close>.
\<close>

definition spec_archetype_reference :: "nat \<Rightarrow> nat \<Rightarrow> string" where
  "spec_archetype_reference delta index =
     ''Q'' @ (if delta = 0 then [] else ''d'' @ Index delta) @ Index index"

text \<open>
  C4, as stated, fails on the token of an outer scope: at depth delta 1 the code writes
  \<open>Qd_\<close> and then the index, where the index grammar applied to the delta itself would
  write \<open>Qd0_\<close>.
\<close>

theorem archetype_delta_not_index_of_delta:
  "mangleType (ArchetypeType (Archetype 7 [])) Minimal 0
     \<lparr>Buffer = [], Substitutions = [], Archetypes = [(7, ArchetypeInfo 1 0)],
       ArchetypesDepth = 2\<rparr> =
   Some \<lparr>Buffer = ''Qd__'', Substitutions = [], Archetypes = [(7, ArchetypeInfo 1 0)],
       ArchetypesDepth = 2\<rparr>
   \<and> spec_archetype_reference (2 - 1) 0 = ''Qd0__''"
  by (simp add: spec_archetype_reference_def mangler_eval)

text \<open>
  C4, amended. For an archetype whose recorded depth is bound and at most the current
  depth, the token is \<open>Q\<close>, then for a depth delta above 0 the letter \<open>d\<close> and the delta
  minus one in the compact index grammar, then the index in the compact index grammar. In
  that grammar 0 is the terminator \<open>_\<close> alone and \<open>v > 0\<close> is \<open>v - 1\<close> in decimal before the
  terminator.
\<close>

theorem archetype_reference:
  "(map_of (Archetypes m) (archetype_ptr archetype) = Some info \<and>
    Depth info \<le> ArchetypesDepth m \<longrightarrow>
    mangleType (ArchetypeType archetype) explosion uncurryLevel m =
      Some (emit
        (''Q'' @
         (if ArchetypesDepth m - Depth info = 0 then []
          else ''d'' @ Index (ArchetypesDepth m - Depth info - 1)) @
         Index (ArchetypeInfo.Index info)) m))
   \<and> Index 0 = ''_''
   \<and> (0 < v \<longrightarrow> Index v = decimal (v - 1) @ ''_'')"
  by (auto simp: Let_def Index_def)

theorem archetype_reference_witness:
  "map_of (Archetypes \<lparr>Buffer = [], Substitutions = [], Archetypes = [(7, ArchetypeInfo 1 4)],
       ArchetypesDepth = 3\<rparr>) (archetype_ptr (Archetype 7 [])) = Some (ArchetypeInfo 1 4)
   \<and> Depth (ArchetypeInfo 1 4) \<le> ArchetypesDepth \<lparr>Buffer = [], Substitutions = [],
       Archetypes = [(7, ArchetypeInfo 1 4)], ArchetypesDepth = 3\<rparr>
   \<and> mangleType (ArchetypeType (Archetype 7 [])) Minimal 0
       \<lparr>Buffer = [], Substitutions = [], Archetypes = [(7, ArchetypeInfo 1 4)],
         ArchetypesDepth = 3\<rparr> =
     Some \<lparr>Buffer = ''Qd0_3_'', Substitutions = [], Archetypes = [(7, ArchetypeInfo 1 4)],
         ArchetypesDepth = 3\<rparr>
   \<and> (0::nat) < 4 \<and> Index 4 = ''3_''"
  using archetype_reference [of "\<lparr>Buffer = [], Substitutions = [],
      Archetypes = [(7, ArchetypeInfo 1 4)], ArchetypesDepth = 3\<rparr>" "Archetype 7 []"
      "ArchetypeInfo 1 4" Minimal 0 4]
  by (simp add: mangler_eval)

section \<open>Names that bypass the grammar\<close>

text \<open>
  C8, as stated, fails: a declaration with an asm name requested as an entity of kind
  \<open>Other\<close> is mangled by the grammar, and so is a function whose Clang declaration is not a
  \<^verbatim>\<open>clang::DeclaratorDecl\<close>.
\<close>

theorem bypass_not_for_every_entity:
  "mangle (Other (Decl DeclKind_Var (Identifier ''x'' False) TopLevelCodeDecl
       BuiltinRawPointerType ''foo_impl'' None False 0 None None None) Minimal 0 False) [] =
     Some ''_T1xBp''
   \<and> mangle (Function (Decl DeclKind_Func (Identifier ''f'' False) TopLevelCodeDecl
       (FunctionType BuiltinRawPointerType BuiltinRawPointerType False) [] (Some OtherClangDecl)
       False 0 None None None) Minimal 0 False) [] =
     Some ''_T1fFBpBp''"
  by (simp add: mangler_eval)

text \<open>
  C8, amended. An entity of kind \<open>Function\<close> whose declaration has a non-empty asm name
  mangles to that name verbatim. An entity of kind \<open>Function\<close> without an asm name, or of
  kind \<open>Other\<close>, whose declaration comes from a Clang declarator declaration mangles to the
  Clang name verbatim. Nothing else is written in either case.
\<close>

theorem bypass_names:
  "(AsmName decl \<noteq> [] \<longrightarrow>
      mangle (Function decl explosion uncurryLevel isLocalLinkage) buffer =
        Some (buffer @ AsmName decl))
   \<and> (AsmName decl = [] \<and> getClangDecl decl = Some (DeclaratorDecl name) \<longrightarrow>
      mangle (Function decl explosion uncurryLevel isLocalLinkage) buffer = Some (buffer @ name))
   \<and> (getClangDecl decl = Some (DeclaratorDecl name) \<longrightarrow>
      mangle (Other decl explosion uncurryLevel isLocalLinkage) buffer = Some (buffer @ name))"
  by (simp add: mangle_def Mangler_init_def mangleOther_def emit_def)

theorem bypass_names_witness:
  "AsmName (Decl DeclKind_Func (Identifier ''foo'' False) TopLevelCodeDecl ErrorType ''foo_impl''
       None False 0 None None None) \<noteq> []
   \<and> mangle (Function (Decl DeclKind_Func (Identifier ''foo'' False) TopLevelCodeDecl ErrorType
       ''foo_impl'' None False 0 None None None) Maximal 1 True) [] = Some ''foo_impl''
   \<and> getClangDecl (Decl DeclKind_Var (Identifier ''e'' False) (ClangModule (Module 3
       (Identifier ''libc'' False) None)) ErrorType [] (Some (DeclaratorDecl ''errno''))
       False 0 None None None) = Some (DeclaratorDecl ''errno'')
   \<and> mangle (Other (Decl DeclKind_Var (Identifier ''e'' False) (ClangModule (Module 3
       (Identifier ''libc'' False) None)) ErrorType [] (Some (DeclaratorDecl ''errno''))
       False 0 None None None) Minimal 0 False) [] = Some ''errno''"
  using bypass_names [of "Decl DeclKind_Func (Identifier ''foo'' False) TopLevelCodeDecl ErrorType
       ''foo_impl'' None False 0 None None None" Maximal 1 True "[]"]
    bypass_names [of "Decl DeclKind_Var (Identifier ''e'' False) (ClangModule (Module 3
       (Identifier ''libc'' False) None)) ErrorType [] (Some (DeclaratorDecl ''errno''))
       False 0 None None None" Minimal 0 False "[]" "''errno''"]
  by simp

section \<open>The binding state around a nested generic scope\<close>

text \<open>
  C9, as stated, fails: only the depth counter is saved and restored. The archetype recorded
  in a descent stays in the map, and a sibling that binds the same archetype again hits the
  assertion of \<^verbatim>\<open>bindGenericParameters\<close>.
\<close>

theorem archetype_map_not_restored:
  "manglePolymorphicType (GenericParamList None [Archetype 7 []])
     (FunctionType (ArchetypeType (Archetype 7 [])) BuiltinRawPointerType False) Minimal 0 True
     \<lparr>Buffer = [], Substitutions = [], Archetypes = [], ArchetypesDepth = 0\<rparr> =
   Some \<lparr>Buffer = ''__FQ_Bp'', Substitutions = [], Archetypes = [(7, ArchetypeInfo 1 0)],
     ArchetypesDepth = 0\<rparr>
   \<and> mangleType (TupleType
       [(None, PolymorphicFunctionType (GenericParamList None [Archetype 7 []])
                 (ArchetypeType (Archetype 7 [])) BuiltinRawPointerType False),
        (None, PolymorphicFunctionType (GenericParamList None [Archetype 7 []])
                 (ArchetypeType (Archetype 7 [])) BuiltinRawPointerType False)]) Minimal 0
     \<lparr>Buffer = [], Substitutions = [], Archetypes = [], ArchetypesDepth = 0\<rparr> = None
   \<and> mangleType (TupleType
       [(None, PolymorphicFunctionType (GenericParamList None [Archetype 7 []])
                 (ArchetypeType (Archetype 7 [])) BuiltinRawPointerType False)]) Minimal 0
     \<lparr>Buffer = [], Substitutions = [], Archetypes = [], ArchetypesDepth = 0\<rparr> =
   Some \<lparr>Buffer = ''TU__FQ_Bp_'', Substitutions = [], Archetypes = [(7, ArchetypeInfo 1 0)],
     ArchetypesDepth = 0\<rparr>"
  by (simp add: mangler_eval)

text \<open>
  C9, amended. The nesting depth counter is saved before and restored after a descent into
  a nested generic scope: \<^verbatim>\<open>manglePolymorphicType\<close>, \<^verbatim>\<open>mangleDeclType\<close> and \<^verbatim>\<open>mangleType\<close>
  return with \<^verbatim>\<open>ArchetypesDepth\<close> as they found it. The archetype map is not restored: it
  keeps what it held and what the descent recorded.
\<close>

theorem depth_restored:
  "(manglePolymorphicType params T explosion uncurryLevel asFunction m = Some m' \<longrightarrow>
      ArchetypesDepth m' = ArchetypesDepth m \<and> prefix (Archetypes m) (Archetypes m'))
   \<and> (mangleDeclType decl explosion uncurryLevel m = Some m' \<longrightarrow>
      ArchetypesDepth m' = ArchetypesDepth m \<and> prefix (Archetypes m) (Archetypes m'))
   \<and> (mangleType type explosion uncurryLevel m = Some m' \<longrightarrow>
      ArchetypesDepth m' = ArchetypesDepth m \<and> prefix (Archetypes m) (Archetypes m'))"
  using mangler_frame(5) [of m params T explosion uncurryLevel asFunction]
    mangler_frame(7) [of m decl explosion uncurryLevel]
    mangler_frame(8) [of m type explosion uncurryLevel]
  by (simp add: keeps_def frame_def frame0_def)

theorem depth_restored_witness:
  "manglePolymorphicType (GenericParamList None [Archetype 7 []])
     (FunctionType (ArchetypeType (Archetype 7 [])) BuiltinRawPointerType False) Minimal 0 True
     \<lparr>Buffer = [], Substitutions = [], Archetypes = [], ArchetypesDepth = 0\<rparr> =
   Some \<lparr>Buffer = ''__FQ_Bp'', Substitutions = [], Archetypes = [(7, ArchetypeInfo 1 0)],
     ArchetypesDepth = 0\<rparr>
   \<and> ArchetypesDepth \<lparr>Buffer = ''__FQ_Bp'', Substitutions = [],
       Archetypes = [(7, ArchetypeInfo 1 0)], ArchetypesDepth = 0\<rparr> =
     ArchetypesDepth \<lparr>Buffer = [], Substitutions = [], Archetypes = [], ArchetypesDepth = 0\<rparr>"
  using depth_restored [of "GenericParamList None [Archetype 7 []]"
      "FunctionType (ArchetypeType (Archetype 7 [])) BuiltinRawPointerType False" Minimal 0 True
      "\<lparr>Buffer = [], Substitutions = [], Archetypes = [], ArchetypesDepth = 0\<rparr>"
      "\<lparr>Buffer = ''__FQ_Bp'', Substitutions = [], Archetypes = [(7, ArchetypeInfo 1 0)],
         ArchetypesDepth = 0\<rparr>"]
  by (simp add: mangler_eval)

section \<open>Anonymous functions\<close>

text \<open>
  C10. For a link entity of kind \<^verbatim>\<open>AnonymousFunction\<close>, \<^verbatim>\<open>LinkEntity::mangle\<close> writes
  exactly the bytes \<open>closure\<close> to the stream: no \<open>_T\<close> prefix, no local-linkage marker,
  and the same bytes whichever function expression the entity stands for.
\<close>

theorem anonymous_function_mangles_to_closure:
  "mangle (AnonymousFunction expr) buffer = Some (buffer @ ''closure'')"
  by (simp add: mangle_def Mangler_init_def emit_def)

section \<open>The first byte of a type mangling and of a request\<close>

lemma keeps_first:
  "keeps (emit (c # cs) m) r \<Longrightarrow> r = Some m' \<Longrightarrow> \<exists>rest. Buffer m' = Buffer m @ c # rest"
  by (auto dest: keepsD frame_emit_first)

lemma tryMangleSubstitution_found:
  "tryMangleSubstitution p m = (True, m') \<Longrightarrow> \<exists>rest. Buffer m' = Buffer m @ CHR ''S'' # rest"
  by (auto simp: tryMangleSubstitution_def emit_def split: option.splits if_splits)

lemma tryMangleSubstitution_not_found:
  "tryMangleSubstitution p m = (False, m') \<Longrightarrow> m' = m"
  by (auto simp: tryMangleSubstitution_def split: option.splits)

lemma tryMangleStandardSubstitution_found:
  "tryMangleStandardSubstitution decl m = (True, m') \<Longrightarrow>
     \<exists>rest. Buffer m' = Buffer m @ CHR ''S'' # rest"
  by (auto simp: tryMangleStandardSubstitution_def emit_def Let_def split: option.splits if_splits)

lemma tryMangleStandardSubstitution_not_found:
  "tryMangleStandardSubstitution decl m = (False, m') \<Longrightarrow> m' = m"
  by (auto simp: tryMangleStandardSubstitution_def Let_def split: option.splits if_splits)

lemma getSpecifierForNominalType_cases:
  "getSpecifierForNominalType decl = Some c \<Longrightarrow> c \<in> set ''PCOV''"
  by (auto simp: getSpecifierForNominalType_def split: DeclKind.splits)

lemma mangleNominalType_first:
  assumes "mangleNominalType decl explosion m = Some m'"
  shows "\<exists>c rest. Buffer m' = Buffer m @ c # rest \<and> c \<in> set ''SPCOV''"
proof -
  obtain standard m1 where t1: "tryMangleStandardSubstitution decl m = (standard, m1)"
    by (cases "tryMangleStandardSubstitution decl m")
  obtain found m2 where t2: "tryMangleSubstitution (getDeclaredType decl) m1 = (found, m2)"
    by (cases "tryMangleSubstitution (getDeclaredType decl) m1")
  show ?thesis
  proof (cases standard)
    case True
    then show ?thesis
      using assms t1 tryMangleStandardSubstitution_found [of decl m m1]
      by (auto simp: mangleNominalType.simps)
  next
    case False
    then have m1: "m1 = m" using t1 by (auto dest: tryMangleStandardSubstitution_not_found)
    show ?thesis
    proof (cases found)
      case True
      then show ?thesis
        using assms t1 t2 m1 \<open>\<not> standard\<close> tryMangleSubstitution_found [of "getDeclaredType decl" m m2]
        by (auto simp: mangleNominalType.simps)
    next
      case nf: False
      then have m2: "m2 = m" using t2 m1 by (auto dest: tryMangleSubstitution_not_found)
      from assms t1 t2 m1 m2 nf \<open>\<not> standard\<close>
      obtain c m3 where c: "getSpecifierForNominalType decl = Some c"
        and 3: "mangleDeclName decl No (emit [c] m) = Some m3"
        and m': "m' = addSubstitution (getDeclaredType decl) m3"
        by (auto simp: mangleNominalType.simps bind_eq_Some_conv split: option.splits)
      have "\<exists>rest. Buffer m3 = Buffer m @ c # rest"
        using keeps_first [OF mangler_frame(6) 3] .
      moreover have "Buffer m' = Buffer m3"
        by (simp add: m' addSubstitution_def)
      ultimately show ?thesis
        using getSpecifierForNominalType_cases [OF c] by auto
    qed
  qed
qed

lemma mangleNominalType_first_type:
  assumes "mangleNominalType decl explosion m = Some m'"
  shows "\<exists>c rest. Buffer m' = Buffer m @ c # rest \<and> c \<in> set ''ABCFGMOPQRSTUVbf''"
proof -
  obtain c rest where 1: "Buffer m' = Buffer m @ c # rest" and 2: "c \<in> set ''SPCOV''"
    using mangleNominalType_first [OF assms] by blast
  from 2 have "c \<in> set ''ABCFGMOPQRSTUVbf''" by auto
  with 1 show ?thesis by blast
qed

lemma first_in:
  "\<exists>rest. Buffer m' = Buffer m @ c # rest \<Longrightarrow> c \<in> A \<Longrightarrow>
    \<exists>c rest. Buffer m' = Buffer m @ c # rest \<and> c \<in> A"
  by blast

lemma keeps_forEach_mangleType:
  "keeps m (forEach (\<lambda>arg m. mangleType arg explosion level m) args m)"
  by (rule keeps_forEach) (rule mangler_frame)

lemma keeps_bound_generic:
  "keeps (emit ''G'' m)
     (mangleNominalType decl explosion (emit ''G'' m) \<bind>
       (\<lambda>m1. forEach (\<lambda>arg m. mangleType arg Minimal 0 m) args m1 \<bind>
          (\<lambda>m2. Some (emit ''_'' m2))))"
  by (rule keeps_bind, rule mangler_frame, rule keeps_bind, rule keeps_forEach_mangleType) simp

lemma keeps_tuple:
  "keeps (emit ''T'' m)
     (forEach
        (\<lambda>field m. do {
           m' \<leftarrow> (case fst field of
                    Some name \<Rightarrow> mangleIdentifier name m
                  | None \<Rightarrow> Some m);
           mangleType (snd field) explosion 0 m'
         })
        elements (emit ''T'' m) \<bind> (\<lambda>m1. Some (emit ''_'' m1)))"
proof (rule keeps_bind)
  show "keeps (emit ''T'' m)
     (forEach
        (\<lambda>field m. do {
           m' \<leftarrow> (case fst field of
                    Some name \<Rightarrow> mangleIdentifier name m
                  | None \<Rightarrow> Some m);
           mangleType (snd field) explosion 0 m'
         })
        elements (emit ''T'' m))"
  proof (rule keeps_forEach)
    fix x :: "Identifier option \<times> Type" and s :: Mangler
    have "keeps s (case fst x of Some name \<Rightarrow> mangleIdentifier name s | None \<Rightarrow> Some s)"
      by (simp split: option.splits)
    then show "keeps s ((case fst x of Some name \<Rightarrow> mangleIdentifier name s | None \<Rightarrow> Some s)
        \<bind> mangleType (snd x) explosion 0)"
      by (rule keeps_bind) (rule mangler_frame)
  qed
qed simp

lemma keeps_protocol_composition:
  "keeps (emit ''P'' m)
     (mangleProtocolList_Type protocols (emit ''P'' m) \<bind> (\<lambda>m1. Some (emit ''_'' m1)))"
  by (rule keeps_bind, rule mangler_frame) simp

lemma mangleType_first_desugared:
  assumes "mangleType t explosion uncurryLevel m = Some m'" and "\<And>x. t \<noteq> SugaredType x"
  shows "\<exists>c rest. Buffer m' = Buffer m @ c # rest \<and> c \<in> set ''ABCFGMOPQRSTUVbf''"
proof (cases t)
  case (BuiltinFloatType kind)
  then show ?thesis using assms(1) by (cases kind) (auto simp: emit_def)
next
  case (BuiltinIntegerType width)
  then show ?thesis using assms(1) by (auto simp: emit_def)
next
  case (SugaredType x)
  then show ?thesis using assms(2) by simp
next
  case (MetaTypeType x)
  have K: "keeps (emit ''M'' m) (mangleType x Minimal 0 (emit ''M'' m))"
    by (rule mangler_frame)
  have E: "mangleType x Minimal 0 (emit ''M'' m) = Some m'"
    using assms(1) MetaTypeType by simp
  show ?thesis by (rule first_in [OF keeps_first [OF K E]]) simp
next
  case (LValueType x)
  have K: "keeps (emit ''R'' m) (mangleType x Minimal 0 (emit ''R'' m))"
    by (rule mangler_frame)
  have E: "mangleType x Minimal 0 (emit ''R'' m) = Some m'"
    using assms(1) LValueType by simp
  show ?thesis by (rule first_in [OF keeps_first [OF K E]]) simp
next
  case (TupleType elements)
  have E: "forEach
        (\<lambda>field m. do {
           m' \<leftarrow> (case fst field of
                    Some name \<Rightarrow> mangleIdentifier name m
                  | None \<Rightarrow> Some m);
           mangleType (snd field) explosion 0 m'
         })
        elements (emit ''T'' m) \<bind> (\<lambda>m1. Some (emit ''_'' m1)) = Some m'"
    using assms(1) TupleType by simp
  show ?thesis by (rule first_in [OF keeps_first [OF keeps_tuple E]]) simp
next
  case (OneOfType decl)
  then have "mangleNominalType decl explosion m = Some m'" using assms(1) by simp
  then show ?thesis by (rule mangleNominalType_first_type)
next
  case (ProtocolType decl)
  then have "mangleNominalType decl explosion m = Some m'" using assms(1) by simp
  then show ?thesis by (rule mangleNominalType_first_type)
next
  case (StructType decl)
  then have "mangleNominalType decl explosion m = Some m'" using assms(1) by simp
  then show ?thesis by (rule mangleNominalType_first_type)
next
  case (ClassType decl)
  then have "mangleNominalType decl explosion m = Some m'" using assms(1) by simp
  then show ?thesis by (rule mangleNominalType_first_type)
next
  case (UnboundGenericType decl)
  then have "mangleNominalType decl explosion m = Some m'" using assms(1) by simp
  then show ?thesis by (rule mangleNominalType_first_type)
next
  case (BoundGenericClassType decl args)
  have E: "mangleNominalType decl explosion (emit ''G'' m) \<bind>
       (\<lambda>m1. forEach (\<lambda>arg m. mangleType arg Minimal 0 m) args m1 \<bind>
          (\<lambda>m2. Some (emit ''_'' m2))) = Some m'"
    using assms(1) BoundGenericClassType by simp
  show ?thesis by (rule first_in [OF keeps_first [OF keeps_bound_generic E]]) simp
next
  case (BoundGenericOneOfType decl args)
  have E: "mangleNominalType decl explosion (emit ''G'' m) \<bind>
       (\<lambda>m1. forEach (\<lambda>arg m. mangleType arg Minimal 0 m) args m1 \<bind>
          (\<lambda>m2. Some (emit ''_'' m2))) = Some m'"
    using assms(1) BoundGenericOneOfType by simp
  show ?thesis by (rule first_in [OF keeps_first [OF keeps_bound_generic E]]) simp
next
  case (BoundGenericStructType decl args)
  have E: "mangleNominalType decl explosion (emit ''G'' m) \<bind>
       (\<lambda>m1. forEach (\<lambda>arg m. mangleType arg Minimal 0 m) args m1 \<bind>
          (\<lambda>m2. Some (emit ''_'' m2))) = Some m'"
    using assms(1) BoundGenericStructType by simp
  show ?thesis by (rule first_in [OF keeps_first [OF keeps_bound_generic E]]) simp
next
  case (PolymorphicFunctionType params input result block)
  have K: "keeps (emit ''U'' m)
     (manglePolymorphicType params t explosion uncurryLevel True (emit ''U'' m))"
    by (rule mangler_frame)
  have E: "manglePolymorphicType params t explosion uncurryLevel True (emit ''U'' m) = Some m'"
    using assms(1) PolymorphicFunctionType by simp
  show ?thesis by (rule first_in [OF keeps_first [OF K E]]) simp
next
  case (ArchetypeType archetype)
  then show ?thesis
    using assms(1) by (auto simp: Let_def emit_def split: option.splits if_splits)
next
  case (FunctionType input result block)
  let ?c = "if block then CHR ''b'' else if uncurryLevel = 0 then CHR ''F'' else CHR ''f''"
  have "mangleType input explosion 0 (emit [?c] m) \<bind>
      mangleType result explosion (uncurryLevel - 1) = Some m'"
    using assms(1) FunctionType by (simp split: if_splits)
  then have "\<exists>rest. Buffer m' = Buffer m @ ?c # rest"
    by (rule mangleFunctionType_first)
  then show ?thesis by (rule first_in) simp
next
  case (ArrayType count baseType)
  have K: "keeps (emit (CHR ''A'' # decimal count) m)
     (mangleType baseType Minimal 0 (emit (CHR ''A'' # decimal count) m))"
    by (rule mangler_frame)
  have E: "mangleType baseType Minimal 0 (emit (CHR ''A'' # decimal count) m) = Some m'"
    using assms(1) ArrayType by simp
  show ?thesis by (rule first_in [OF keeps_first [OF K E]]) simp
next
  case (ProtocolCompositionType protocols)
  have E: "mangleProtocolList_Type protocols (emit ''P'' m) \<bind>
      (\<lambda>m1. Some (emit ''_'' m1)) = Some m'"
    using assms(1) ProtocolCompositionType by (simp split: if_splits)
  show ?thesis by (rule first_in [OF keeps_first [OF keeps_protocol_composition E]]) simp
qed (use assms(1) in \<open>auto simp: emit_def\<close>)

lemma mangleType_first:
  assumes "mangleType t explosion uncurryLevel m = Some m'"
  shows "\<exists>c rest. Buffer m' = Buffer m @ c # rest \<and> c \<in> set ''ABCFGMOPQRSTUVbf''"
proof -
  have "mangleType (getDesugaredType t) explosion uncurryLevel m = Some m'"
    using assms mangleType_getDesugaredType [of t explosion uncurryLevel m] by simp
  then show ?thesis
    using mangleType_first_desugared [of "getDesugaredType t"] getDesugaredType_not_sugar
    by blast
qed

lemma digit_char_digit: "d < 10 \<Longrightarrow> digit_char d \<in> set ''0123456789''"
proof -
  assume "d < 10"
  then have "d \<in> {0, 1, 2, 3, 4, 5, 6, 7, 8, 9}" by auto
  then show ?thesis by (auto simp: digit_char_def)
qed

lemma decimal_digits: "decimal n \<noteq> [] \<and> set (decimal n) \<subseteq> set ''0123456789''"
proof (induction n rule: decimal.induct)
  case (1 n)
  show ?case
  proof (cases "n < 10")
    case True
    then show ?thesis using digit_char_digit [of n] by (simp add: decimal.simps [of n])
  next
    case False
    have "n mod 10 < 10" by simp
    then have "digit_char (n mod 10) \<in> set ''0123456789''" by (rule digit_char_digit)
    then show ?thesis using 1 False by (simp add: decimal.simps [of n])
  qed
qed

lemma decimal_first: "\<exists>c rest. decimal n = c # rest \<and> c \<in> set ''0123456789''"
proof (cases "decimal n")
  case Nil
  then show ?thesis using decimal_digits [of n] by simp
next
  case (Cons c rest)
  then have "c \<in> set (decimal n)" by simp
  then have "c \<in> set ''0123456789''" using decimal_digits [of n] by blast
  then show ?thesis using Cons by blast
qed

definition starts :: "char set \<Rightarrow> Mangler \<Rightarrow> Mangler option \<Rightarrow> bool" where
  "starts A m r \<longleftrightarrow>
     (\<forall>m'. r = Some m' \<longrightarrow> (\<exists>rest. Buffer m' = Buffer m @ rest \<and> (rest = [] \<or> hd rest \<in> A)))"

definition starts1 :: "char set \<Rightarrow> Mangler \<Rightarrow> Mangler option \<Rightarrow> bool" where
  "starts1 A m r \<longleftrightarrow>
     (\<forall>m'. r = Some m' \<longrightarrow> (\<exists>c rest. Buffer m' = Buffer m @ c # rest \<and> c \<in> A))"

lemma starts1D:
  "starts1 A m r \<Longrightarrow> r = Some m' \<Longrightarrow> \<exists>c rest. Buffer m' = Buffer m @ c # rest \<and> c \<in> A"
  by (simp add: starts1_def)

lemma starts_None [simp]: "starts A m None"
  by (simp add: starts_def)

lemma starts1_None [simp]: "starts1 A m None"
  by (simp add: starts1_def)

lemma starts_same [simp]: "starts A m (Some m)"
  by (simp add: starts_def)

lemma starts_of_starts1: "starts1 A m r \<Longrightarrow> starts A m r"
  by (fastforce simp: starts_def starts1_def)

lemma starts1_emit: "c \<in> A \<Longrightarrow> starts1 A m (Some (emit (c # cs) m))"
  by (simp add: starts1_def emit_def)

lemma starts1_keeps: "keeps (emit (c # cs) m) r \<Longrightarrow> c \<in> A \<Longrightarrow> starts1 A m r"
  unfolding starts1_def using keeps_first by blast

lemma starts_bind:
  assumes "starts A m r" and "\<And>m1. r = Some m1 \<Longrightarrow> starts A m1 (f m1)"
  shows "starts A m (r \<bind> f)"
  unfolding starts_def
proof (intro allI impI)
  fix m'
  assume "r \<bind> f = Some m'"
  then obtain m1 where 1: "r = Some m1" and 2: "f m1 = Some m'"
    by (auto simp: bind_eq_Some_conv)
  obtain rest1 where r1: "Buffer m1 = Buffer m @ rest1" "rest1 = [] \<or> hd rest1 \<in> A"
    using assms(1) 1 by (auto simp: starts_def)
  obtain rest2 where r2: "Buffer m' = Buffer m1 @ rest2" "rest2 = [] \<or> hd rest2 \<in> A"
    using assms(2) [OF 1] 2 by (auto simp: starts_def)
  have "Buffer m' = Buffer m @ (rest1 @ rest2)" using r1 r2 by simp
  moreover have "rest1 @ rest2 = [] \<or> hd (rest1 @ rest2) \<in> A"
    using r1(2) r2(2) by (cases rest1) auto
  ultimately show "\<exists>rest. Buffer m' = Buffer m @ rest \<and> (rest = [] \<or> hd rest \<in> A)"
    by blast
qed

lemma starts1_bind_left:
  assumes "starts1 A m r" and "\<And>m1. r = Some m1 \<Longrightarrow> keeps m1 (f m1)"
  shows "starts1 A m (r \<bind> f)"
  unfolding starts1_def
proof (intro allI impI)
  fix m'
  assume "r \<bind> f = Some m'"
  then obtain m1 where 1: "r = Some m1" and 2: "f m1 = Some m'"
    by (auto simp: bind_eq_Some_conv)
  obtain c rest1 where r1: "Buffer m1 = Buffer m @ c # rest1" "c \<in> A"
    using assms(1) 1 by (auto simp: starts1_def)
  have "frame m1 m'" using assms(2) [OF 1] 2 by (rule keepsD)
  then obtain rest2 where "Buffer m' = Buffer m1 @ rest2"
    by (auto simp: frame_def frame0_def prefix_def)
  then have "Buffer m' = Buffer m @ c # (rest1 @ rest2)" using r1 by simp
  then show "\<exists>c rest. Buffer m' = Buffer m @ c # rest \<and> c \<in> A"
    using r1(2) by blast
qed

lemma starts1_bind_right:
  assumes "starts A m r" and "\<And>m1. r = Some m1 \<Longrightarrow> starts1 A m1 (f m1)"
  shows "starts1 A m (r \<bind> f)"
  unfolding starts1_def
proof (intro allI impI)
  fix m'
  assume "r \<bind> f = Some m'"
  then obtain m1 where 1: "r = Some m1" and 2: "f m1 = Some m'"
    by (auto simp: bind_eq_Some_conv)
  obtain rest1 where r1: "Buffer m1 = Buffer m @ rest1" "rest1 = [] \<or> hd rest1 \<in> A"
    using assms(1) 1 by (auto simp: starts_def)
  obtain c rest2 where r2: "Buffer m' = Buffer m1 @ c # rest2" "c \<in> A"
    using assms(2) [OF 1] 2 by (auto simp: starts1_def)
  show "\<exists>c rest. Buffer m' = Buffer m @ c # rest \<and> c \<in> A"
  proof (cases rest1)
    case Nil
    then show ?thesis using r1 r2 by auto
  next
    case (Cons d ds)
    then have "Buffer m' = Buffer m @ d # (ds @ c # rest2)" "d \<in> A"
      using r1 r2 by auto
    then show ?thesis by blast
  qed
qed

lemma starts1_mangleIdentifier:
  "starts1 (set ''0123456789o'') m (mangleIdentifier ident m)"
proof -
  obtain d ds where d: "decimal (length (str ident)) = d # ds" "d \<in> set ''0123456789''"
    using decimal_first by blast
  have step: "keeps s (map_option (\<lambda>op. emit [op] s) r)" for s r
    by (cases r) simp_all
  have "keeps (emit (decimal (length (str ident))) (emit ''op'' m))
     (forEach (\<lambda>c m. map_option (\<lambda>op. emit [op] m) (mangleOperatorChar c)) (str ident)
        (emit (decimal (length (str ident))) (emit ''op'' m)))"
    by (rule keeps_forEach) (rule step)
  then have "keeps (emit ''op'' m)
     (forEach (\<lambda>c m. map_option (\<lambda>op. emit [op] m) (mangleOperatorChar c)) (str ident)
        (emit (decimal (length (str ident))) (emit ''op'' m)))"
    by (rule keeps_emit)
  then have op: "starts1 (set ''0123456789o'') m
     (forEach (\<lambda>c m. map_option (\<lambda>op. emit [op] m) (mangleOperatorChar c)) (str ident)
        (emit (decimal (length (str ident))) (emit ''op'' m)))"
    by (rule starts1_keeps) simp
  have "starts1 (set ''0123456789o'') m (Some (emit (d # (ds @ str ident)) m))"
    using d(2) by (intro starts1_emit) auto
  then have plain: "starts1 (set ''0123456789o'') m
      (Some (emit (decimal (length (str ident)) @ str ident) m))"
    using d(1) by simp
  show ?thesis
    unfolding mangleIdentifier_def using op plain by (simp del: emit_emit)
qed

definition name_first :: "char set" where
  "name_first = set ''0123456789oABCFGMOPQRSTUVbf''"

lemma starts1_mono: "starts1 A m r \<Longrightarrow> A \<subseteq> B \<Longrightarrow> starts1 B m r"
  by (fastforce simp: starts1_def)

lemma starts1_mangleType: "starts1 name_first m (mangleType t explosion uncurryLevel m)"
proof -
  have "starts1 (set ''ABCFGMOPQRSTUVbf'') m (mangleType t explosion uncurryLevel m)"
    unfolding starts1_def using mangleType_first by blast
  then show ?thesis by (rule starts1_mono) (simp add: name_first_def)
qed

lemma starts1_mangleNominalType: "starts1 name_first m (mangleNominalType decl explosion m)"
proof -
  have "starts1 (set ''SPCOV'') m (mangleNominalType decl explosion m)"
    unfolding starts1_def using mangleNominalType_first by blast
  then show ?thesis by (rule starts1_mono) (simp add: name_first_def)
qed

lemma starts1_name_identifier: "starts1 name_first m (mangleIdentifier ident m)"
  by (rule starts1_mono [OF starts1_mangleIdentifier]) (simp add: name_first_def)

lemma mangler_starts:
  "starts name_first m1 (mangleContextOf decl1 m1)"
  "starts name_first m2 (mangleDeclContext ctx2 m2)"
  "starts1 name_first m3 (mangleGetterOrSetterContext func3 m3)"
  "keeps0 m4 (bindGenericParameters params4 mangle4 m4)"
  "keeps m5 (manglePolymorphicType params5 T5 explosion5 level5 asFunction5 m5)"
  "starts1 name_first m6 (mangleDeclName decl6 include6 m6)"
  "keeps m7 (mangleDeclType decl7 explosion7 level7 m7)"
  "keeps m8 (mangleType type8 explosion8 level8 m8)"
  "keeps m9 (mangleProtocolList_Type types9 m9)"
  "keeps m10 (mangleProtocolList decls10 m10)"
  "keeps m11 (mangleProtocolName decl11 m11)"
  "keeps m12 (mangleNominalType decl12 explosion12 m12)"
  "keeps m13 (mangleFunctionType fn13 explosion13 level13 m13)"
proof (induction decl1 m1 and ctx2 m2 and func3 m3 and params4 mangle4 m4
    and params5 T5 explosion5 level5 asFunction5 m5 and decl6 include6 m6
    and decl7 explosion7 level7 m7 and type8 explosion8 level8 m8 and types9 m9
    and decls10 m10 and decl11 m11 and decl12 explosion12 m12
    and fn13 explosion13 level13 m13 rule: mangler_induct)
  case (1 decl m)
  have "starts name_first m (Some (emit ''So'' m))"
    by (rule starts_of_starts1, rule starts1_emit) (simp add: name_first_def)
  with 1 show ?case
    by (subst mangleContextOf.simps) (auto simp del: emit_emit)
next
  case (2 module m)
  show ?case by simp
next
  case (3 module m)
  show ?case by simp
next
  case (4 module m)
  obtain found m1 where t: "tryMangleSubstitution (module_ptr module) m = (found, m1)"
    by (cases "tryMangleSubstitution (module_ptr module) m")
  have Ss: "starts name_first m (Some (emit ''Ss'' m))"
    by (rule starts_of_starts1, rule starts1_emit) (simp add: name_first_def)
  show ?case
  proof (cases "isSwiftModule module")
    case True
    then show ?thesis using Ss by simp
  next
    case ns: False
    show ?thesis
    proof (cases found)
      case True
      then obtain rest where "Buffer m1 = Buffer m @ CHR ''S'' # rest"
        using t tryMangleSubstitution_found [of "module_ptr module" m m1] by auto
      then have "starts name_first m (Some m1)"
        by (auto simp: starts_def name_first_def)
      then show ?thesis using ns t True by simp
    next
      case False
      then have m1: "m1 = m" using t by (auto dest: tryMangleSubstitution_not_found)
      have p: "starts name_first m (case getParent module of None \<Rightarrow> Some m
                | Some parent \<Rightarrow> mangleDeclContext parent m)"
        using 4 [OF ns refl t [symmetric]] False m1 by (auto split: option.splits)
      have a: "starts1 name_first s (mangleIdentifier (Name module) s \<bind>
                (\<lambda>m3. Some (addSubstitution (module_ptr module) m3)))" for s
        by (rule starts1_bind_left [OF starts1_name_identifier]) simp
      have "starts1 name_first m ((case getParent module of None \<Rightarrow> Some m
                | Some parent \<Rightarrow> mangleDeclContext parent m) \<bind>
             (\<lambda>m2. mangleIdentifier (Name module) m2 \<bind>
                (\<lambda>m3. Some (addSubstitution (module_ptr module) m3))))"
        by (rule starts1_bind_right [OF p]) (rule a)
      then show ?thesis using ns t False m1 by (simp add: starts_of_starts1)
    qed
  qed
next
  case (5 decl m)
  show ?case using starts1_mangleNominalType by (simp add: starts_of_starts1)
next
  case (6 type m)
  show ?case using starts1_mangleType by (simp add: starts_of_starts1)
next
  case (7 decl m)
  then show ?case by (auto intro: starts_of_starts1)
next
  case (8 m)
  show ?case by simp
next
  case (9 m)
  show ?case by simp
next
  case (10 decl m)
  then show ?case by (auto intro: starts_of_starts1)
next
  case (11 decl m)
  then show ?case by (auto intro: starts_of_starts1)
next
  case (12 m)
  show ?case by simp
next
  case (13 func m)
  have k: "keeps m1 (mangleDeclType D Minimal 0 m1 \<bind> (\<lambda>m2. Some (emit out m2)))"
    for D m1 out
    by (rule keeps_bind [OF mangler_frame(7)]) simp
  show ?case
    by (subst mangleGetterOrSetterContext.simps)
      (auto split: option.splits intro!: starts1_bind_left 13 k)
next
  case (16 decl includeType m)
  have c: "starts name_first m (mangleContextOf decl m)" using 16 by simp
  have k: "keeps m2 (if includeType = No then Some m2 else mangleDeclType decl Minimal 0 m2)"
    for m2
    using mangler_frame(7) by simp
  have "starts1 name_first m1 (mangleIdentifier (getName decl) m1 \<bind>
      (\<lambda>m2. if includeType = No then Some m2 else mangleDeclType decl Minimal 0 m2))" for m1
    by (rule starts1_bind_left [OF starts1_name_identifier]) (rule k)
  then have "starts1 name_first m (mangleContextOf decl m \<bind>
      (\<lambda>m1. mangleIdentifier (getName decl) m1 \<bind>
      (\<lambda>m2. if includeType = No then Some m2 else mangleDeclType decl Minimal 0 m2)))"
    by (rule starts1_bind_right [OF c])
  then show ?case by (subst mangleDeclName.simps) simp
qed (rule mangler_frame)+

text \<open>
  The two bypasses of \<^verbatim>\<open>LinkEntity::mangle\<close>: the name that is written as it is, if the
  request takes one of them.
\<close>

fun bypassName :: "LinkEntity \<Rightarrow> string option" where
  "bypassName (Function decl explosion uncurryLevel isLocalLinkage) =
    (if AsmName decl \<noteq> [] then Some (AsmName decl)
     else case getClangDecl decl of Some (DeclaratorDecl name) \<Rightarrow> Some name | _ \<Rightarrow> None)"
| "bypassName (Other decl explosion uncurryLevel isLocalLinkage) =
    (case getClangDecl decl of Some (DeclaratorDecl name) \<Rightarrow> Some name | _ \<Rightarrow> None)"
| "bypassName entity = None"

lemma keeps_mangleEntity: "keeps m (mangleEntity decl explosion uncurryLevel m)"
  unfolding mangleEntity_def by (intro keeps_bind mangler_frame)

lemma keeps_accessor:
  "keeps m (mangleEntity decl explosion uncurryLevel m \<bind> (\<lambda>m1. Some (emit out m1)))"
  by (rule keeps_bind [OF keeps_mangleEntity]) simp

lemma keeps_destructor:
  "keeps m (mangleNominalType decl Minimal m \<bind> (\<lambda>m1. Some (emit out m1)))"
  by (rule keeps_bind [OF mangler_frame(12)]) simp

lemma keeps_constructor:
  "keeps m (mangleContextOf ctor m \<bind>
     (\<lambda>m1. mangleDeclType ctor explosion uncurryLevel (emit out m1)))"
proof (rule keeps_bind [OF mangler_frame(1)])
  fix m1
  show "keeps m1 (mangleDeclType ctor explosion uncurryLevel (emit out m1))"
    by (rule keeps_emit) (rule mangler_frame)
qed

lemma bypassName_verbatim:
  "bypassName entity = Some name \<Longrightarrow> LinkEntity_mangle entity m = Some (emit name m)"
  by (cases entity)
    (auto simp: mangleOther_def split: if_splits option.splits ClangDecl.splits)

lemma underscore_first:
  assumes "keeps (emit (CHR ''_'' # cs) m) r" and "r = Some m'"
  shows "\<exists>c rest. Buffer m' = Buffer m @ c # rest \<and> c \<in> set ''_cOABCFGMPQRSTUVbf''"
  by (rule first_in [OF keeps_first [OF assms]]) simp

lemma mangleOther_grammar:
  "(case getClangDecl decl of Some (DeclaratorDecl name) \<Rightarrow> Some name | _ \<Rightarrow> None) = None \<Longrightarrow>
    mangleOther decl explosion uncurryLevel isLocalLinkage m =
      mangleEntity decl explosion uncurryLevel
        (emit (if isLocalLinkage then ''_TL'' else ''_T'') m)"
  by (auto simp: mangleOther_def split: option.splits ClangDecl.splits)

lemma request_first:
  assumes "bypassName entity = None" and "LinkEntity_mangle entity m = Some m'"
  shows "\<exists>c rest. Buffer m' = Buffer m @ c # rest \<and> c \<in> set ''_cOABCFGMPQRSTUVbf''"
proof (cases entity)
  case (AnonymousFunction expr)
  then show ?thesis using assms(2) by (auto simp: emit_def)
next
  case (ValueWitness type witness)
  then obtain code where c: "mangleValueWitness witness = Some code"
    and 1: "mangleType type Minimal 0 (emit (''_Tw'' @ code) m) = Some m'"
    using assms(2) by (auto split: option.splits)
  have "keeps (emit (''_Tw'' @ code) m) (mangleType type Minimal 0 (emit (''_Tw'' @ code) m))"
    by (rule mangler_frame)
  then show ?thesis using 1 underscore_first [of "''Tw'' @ code" m _ m'] by simp
next
  case (ValueWitnessTable type)
  then have 1: "mangleType type Minimal 0 (emit ''_TWV'' m) = Some m'"
    using assms(2) by simp
  show ?thesis by (rule underscore_first [OF mangler_frame(8) 1])
next
  case (TypeMangling type)
  then have "mangleType type Minimal 0 m = Some m'" using assms(2) by simp
  then obtain c rest where "Buffer m' = Buffer m @ c # rest" "c \<in> set ''ABCFGMOPQRSTUVbf''"
    using mangleType_first by blast
  moreover from this have "c \<in> set ''_cOABCFGMPQRSTUVbf''" by auto
  ultimately show ?thesis by blast
next
  case (TypeMetadata type isMetadataPattern isMetadataIndirect)
  then obtain cs where 1: "mangleType type Minimal 0 (emit (CHR ''_'' # cs) m) = Some m'"
    using assms(2) by (auto simp: mangleDirectness_def split: if_splits)
  show ?thesis by (rule underscore_first [OF mangler_frame(8) 1])
next
  case (SwiftMetaclassStub decl)
  then have 1: "mangleNominalType decl Minimal (emit ''_TMm'' m) = Some m'"
    using assms(2) by (simp split: if_splits)
  show ?thesis by (rule underscore_first [OF mangler_frame(12) 1])
next
  case (WitnessTableOffset decl explosion uncurryLevel)
  then have 1: "mangleEntity decl explosion uncurryLevel (emit ''_TWo'' m) = Some m'"
    using assms(2) by simp
  show ?thesis by (rule underscore_first [OF keeps_mangleEntity 1])
next
  case (FieldOffset decl isOffsetIndirect)
  then obtain cs where 1: "mangleEntity decl Minimal 0 (emit (CHR ''_'' # cs) m) = Some m'"
    using assms(2) by (auto simp: mangleDirectness_def split: if_splits)
  show ?thesis by (rule underscore_first [OF keeps_mangleEntity 1])
next
  case (BridgeToBlockConverter type)
  then have 1: "mangleType type Minimal 0 (emit ''_TTb'' m) = Some m'"
    using assms(2) by simp
  show ?thesis by (rule underscore_first [OF mangler_frame(8) 1])
next
  case (Destructor decl kind isLocalLinkage)
  then obtain cs out where 1: "mangleNominalType decl Minimal (emit (CHR ''_'' # cs) m) \<bind>
      (\<lambda>m1. Some (emit out m1)) = Some m'"
    using assms(2) by (auto split: if_splits)
  show ?thesis by (rule underscore_first [OF keeps_destructor 1])
next
  case (Constructor ctor kind explosion uncurryLevel isLocalLinkage)
  then obtain cs out where 1: "mangleContextOf ctor (emit (CHR ''_'' # cs) m) \<bind>
     (\<lambda>m1. mangleDeclType ctor explosion uncurryLevel (emit out m1)) = Some m'"
    using assms(2) by (auto split: if_splits)
  show ?thesis by (rule underscore_first [OF keeps_constructor 1])
next
  case (Function decl explosion uncurryLevel isLocalLinkage)
  then have n: "(case getClangDecl decl of Some (DeclaratorDecl name) \<Rightarrow> Some name | _ \<Rightarrow> None)
      = None" and a: "AsmName decl = []"
    using assms(1) by (auto split: if_splits)
  obtain cs where 1: "mangleEntity decl explosion uncurryLevel (emit (CHR ''_'' # cs) m) = Some m'"
    using assms(2) Function a by (auto simp: mangleOther_grammar [OF n] split: if_splits)
  show ?thesis by (rule underscore_first [OF keeps_mangleEntity 1])
next
  case (Other decl explosion uncurryLevel isLocalLinkage)
  then have n: "(case getClangDecl decl of Some (DeclaratorDecl name) \<Rightarrow> Some name | _ \<Rightarrow> None)
      = None"
    using assms(1) by auto
  obtain cs where 1: "mangleEntity decl explosion uncurryLevel (emit (CHR ''_'' # cs) m) = Some m'"
    using assms(2) Other by (auto simp: mangleOther_grammar [OF n] split: if_splits)
  show ?thesis by (rule underscore_first [OF keeps_mangleEntity 1])
next
  case (Getter decl explosion uncurryLevel isLocalLinkage)
  then obtain cs out where 1: "mangleEntity decl explosion uncurryLevel (emit (CHR ''_'' # cs) m) \<bind>
      (\<lambda>m1. Some (emit out m1)) = Some m'"
    using assms(2) by (auto split: if_splits)
  show ?thesis by (rule underscore_first [OF keeps_accessor 1])
next
  case (Setter decl explosion uncurryLevel isLocalLinkage)
  then obtain cs out where 1: "mangleEntity decl explosion uncurryLevel (emit (CHR ''_'' # cs) m) \<bind>
      (\<lambda>m1. Some (emit out m1)) = Some m'"
    using assms(2) by (auto split: if_splits)
  show ?thesis by (rule underscore_first [OF keeps_accessor 1])
next
  case (ObjCClass decl)
  then show ?thesis using assms(2) by (auto simp: emit_def)
next
  case (ObjCMetaclass decl)
  then show ?thesis using assms(2) by (auto simp: emit_def)
qed

text \<open>
  C2, as stated, fails: a symbol of the grammar begins with the prefix \<open>_T\<close>, so the first byte
  of the output is an underscore; and a request that takes a bypass writes the name as it is,
  whatever its first byte.
\<close>

theorem symbol_begins_with_underscore:
  "mangle (ValueWitnessTable BuiltinRawPointerType) [] = Some ''_TWVBp''
   \<and> hd ''_TWVBp'' = CHR ''_''
   \<and> mangle (Function (Decl DeclKind_Func (Identifier ''f'' False) TopLevelCodeDecl
        (FunctionType BuiltinRawPointerType BuiltinRawPointerType False) ''9lives'' None False 0
        None None None) Minimal 0 False) [] = Some ''9lives''
   \<and> hd ''9lives'' = CHR ''9''"
  by (simp add: mangler_eval)

text \<open>
  C2, amended. A type mangling that succeeds appends at least one byte, and the first byte it
  appends is one of the letters \<open>A B C F G M O P Q R S T U V b f\<close>: never a decimal digit and
  never an underscore. A request that takes no bypass and succeeds appends at least one byte,
  and the first byte it appends is an underscore, the \<open>c\<close> of \<open>closure\<close>, the \<open>O\<close> of
  \<open>OBJC_\<close> or the first letter of a type mangling: never a decimal digit. A request that
  takes a bypass appends the bypass name and nothing else.
\<close>

theorem type_mangling_first_byte:
  "(mangleType t explosion uncurryLevel m = Some m' \<longrightarrow>
     (\<exists>c rest. Buffer m' = Buffer m @ c # rest \<and> c \<in> set ''ABCFGMOPQRSTUVbf'' \<and>
        c \<notin> set ''0123456789_''))
   \<and> (bypassName entity = None \<and> mangle entity buffer = Some s \<longrightarrow>
     (\<exists>c rest. s = buffer @ c # rest \<and> c \<in> set ''_cOABCFGMPQRSTUVbf'' \<and>
        c \<notin> set ''0123456789''))
   \<and> (bypassName entity = Some name \<longrightarrow> mangle entity buffer = Some (buffer @ name))"
proof (intro conjI impI)
  assume "mangleType t explosion uncurryLevel m = Some m'"
  then obtain c rest where "Buffer m' = Buffer m @ c # rest" "c \<in> set ''ABCFGMOPQRSTUVbf''"
    using mangleType_first by blast
  moreover from this have "c \<notin> set ''0123456789_''" by auto
  ultimately show "\<exists>c rest. Buffer m' = Buffer m @ c # rest \<and> c \<in> set ''ABCFGMOPQRSTUVbf'' \<and>
        c \<notin> set ''0123456789_''"
    by blast
next
  assume a: "bypassName entity = None \<and> mangle entity buffer = Some s"
  then obtain m' where 1: "LinkEntity_mangle entity (Mangler_init buffer) = Some m'"
    and s: "s = Buffer m'"
    by (auto simp: mangle_def)
  from request_first [OF conjunct1 [OF a] 1]
  obtain c rest where cr: "Buffer m' = Buffer (Mangler_init buffer) @ c # rest"
    and c: "c \<in> set ''_cOABCFGMPQRSTUVbf''"
    by (elim exE conjE)
  from c have d: "c \<notin> set ''0123456789''" by auto
  have b: "s = buffer @ c # rest" using cr s by (simp add: Mangler_init_def)
  from b c d show "\<exists>c rest. s = buffer @ c # rest \<and> c \<in> set ''_cOABCFGMPQRSTUVbf'' \<and>
        c \<notin> set ''0123456789''"
    by blast
next
  assume "bypassName entity = Some name"
  then show "mangle entity buffer = Some (buffer @ name)"
    by (simp add: mangle_def bypassName_verbatim Mangler_init_def emit_def)
qed

theorem type_mangling_first_byte_witness:
  "mangleType (ArrayType 4 BuiltinRawPointerType) Minimal 0
     \<lparr>Buffer = ''_TWV'', Substitutions = [], Archetypes = [], ArchetypesDepth = 0\<rparr> =
   Some \<lparr>Buffer = ''_TWVA4Bp'', Substitutions = [], Archetypes = [], ArchetypesDepth = 0\<rparr>
   \<and> (\<exists>c rest. ''_TWVA4Bp'' = ''_TWV'' @ c # rest \<and> c \<in> set ''ABCFGMOPQRSTUVbf'' \<and>
        c \<notin> set ''0123456789_'')
   \<and> bypassName (ValueWitnessTable (ArrayType 4 BuiltinRawPointerType)) = None
   \<and> mangle (ValueWitnessTable (ArrayType 4 BuiltinRawPointerType)) [] = Some ''_TWVA4Bp''
   \<and> (\<exists>c rest. ''_TWVA4Bp'' = [] @ c # rest \<and> c \<in> set ''_cOABCFGMPQRSTUVbf'' \<and>
        c \<notin> set ''0123456789'')
   \<and> bypassName (Function (Decl DeclKind_Func (Identifier ''f'' False) TopLevelCodeDecl
        (FunctionType BuiltinRawPointerType BuiltinRawPointerType False) ''foo_impl'' None False 0
        None None None) Minimal 0 False) = Some ''foo_impl''
   \<and> mangle (Function (Decl DeclKind_Func (Identifier ''f'' False) TopLevelCodeDecl
        (FunctionType BuiltinRawPointerType BuiltinRawPointerType False) ''foo_impl'' None False 0
        None None None) Minimal 0 False) [] = Some ''foo_impl''"
  using type_mangling_first_byte [of "ArrayType 4 BuiltinRawPointerType" Minimal 0
      "\<lparr>Buffer = ''_TWV'', Substitutions = [], Archetypes = [], ArchetypesDepth = 0\<rparr>"
      "\<lparr>Buffer = ''_TWVA4Bp'', Substitutions = [], Archetypes = [], ArchetypesDepth = 0\<rparr>"
      "ValueWitnessTable (ArrayType 4 BuiltinRawPointerType)" "[]" "''_TWVA4Bp''" "[]"]
    type_mangling_first_byte [of "ArrayType 4 BuiltinRawPointerType" Minimal 0
      "\<lparr>Buffer = ''_TWV'', Substitutions = [], Archetypes = [], ArchetypesDepth = 0\<rparr>"
      "\<lparr>Buffer = ''_TWVA4Bp'', Substitutions = [], Archetypes = [], ArchetypesDepth = 0\<rparr>"
      "Function (Decl DeclKind_Func (Identifier ''f'' False) TopLevelCodeDecl
        (FunctionType BuiltinRawPointerType BuiltinRawPointerType False) ''foo_impl'' None False 0
        None None None) Minimal 0 False" "[]" "''foo_impl''" "''foo_impl''"]
  by (simp add: mangler_eval)

section \<open>Substitutions\<close>

lemma frame0_map_of:
  "frame0 m m' \<Longrightarrow> map_of (Substitutions m) p = Some i \<Longrightarrow> map_of (Substitutions m') p = Some i"
  by (auto simp: frame0_def prefix_def map_add_Some_iff)

lemma addSubstitution_recorded:
  "\<exists>i. map_of (Substitutions (addSubstitution p m)) p = Some i"
  by (cases "map_of (Substitutions m) p") (auto simp: addSubstitution_def map_add_def)

lemma tryMangleSubstitution_eq:
  "tryMangleSubstitution p m =
    (case map_of (Substitutions m) p of
       None \<Rightarrow> (False, m)
     | Some i \<Rightarrow> (True, emit (''S'' @ (if i = 0 then [] else decimal (i - 1)) @ ''_'') m))"
  by (simp add: tryMangleSubstitution_def emit_def split: option.splits)

lemma tryMangleStandardSubstitution_state:
  "fst (tryMangleStandardSubstitution decl m') = fst (tryMangleStandardSubstitution decl m)"
  by (simp add: tryMangleStandardSubstitution_def Let_def split: option.splits)

lemma mangleNominalType_unfold:
  assumes "\<not> fst (tryMangleStandardSubstitution decl m)"
  shows "mangleNominalType decl explosion m =
    (case map_of (Substitutions m) (getDeclaredType decl) of
       Some i \<Rightarrow> Some (emit (''S'' @ (if i = 0 then [] else decimal (i - 1)) @ ''_'') m)
     | None \<Rightarrow>
        (case getSpecifierForNominalType decl of
           None \<Rightarrow> None
         | Some c \<Rightarrow> mangleDeclName decl No (emit [c] m) \<bind>
             (\<lambda>m3. Some (addSubstitution (getDeclaredType decl) m3))))"
proof -
  obtain m0 where t1: "tryMangleStandardSubstitution decl m = (False, m0)"
    using assms by (cases "tryMangleStandardSubstitution decl m") auto
  then have m0: "m0 = m" by (rule tryMangleStandardSubstitution_not_found)
  show ?thesis
    by (simp add: mangleNominalType.simps [of decl explosion m] t1 m0 tryMangleSubstitution_eq
        split: option.splits)
qed

lemma mangleProtocolName_unfold:
  "mangleProtocolName protocol m =
    (if getKind protocol \<noteq> DeclKind_Protocol then None
     else case map_of (Substitutions m) (getDeclaredType protocol) of
       Some i \<Rightarrow> Some (emit (''S'' @ (if i = 0 then [] else decimal (i - 1)) @ ''_'') m)
     | None \<Rightarrow> mangleDeclName protocol No m \<bind>
             (\<lambda>m3. Some (addSubstitution (getDeclaredType protocol) m3)))"
  by (simp add: mangleProtocolName.simps [of protocol m] tryMangleSubstitution_eq
      split: option.splits)

lemma mangleModule_unfold:
  "\<not> isSwiftModule module \<Longrightarrow>
   mangleDeclContext (TranslationUnit module) m =
    (case map_of (Substitutions m) (module_ptr module) of
       Some i \<Rightarrow> Some (emit (''S'' @ (if i = 0 then [] else decimal (i - 1)) @ ''_'') m)
     | None \<Rightarrow>
        (case getParent module of
           None \<Rightarrow> Some m
         | Some parent \<Rightarrow> mangleDeclContext parent m) \<bind>
        (\<lambda>m2. mangleIdentifier (Name module) m2 \<bind>
           (\<lambda>m3. Some (addSubstitution (module_ptr module) m3))))"
  by (simp add: tryMangleSubstitution_eq split: option.splits)

lemma bind_addSubstitution_recorded:
  "r \<bind> (\<lambda>m3. Some (addSubstitution p m3)) = Some m1 \<Longrightarrow>
     \<exists>i. map_of (Substitutions m1) p = Some i"
  by (cases r) (auto simp: addSubstitution_recorded)

lemma emit_Substitutions [simp]: "Substitutions (emit out m) = Substitutions m"
  by (simp add: emit_def)

lemma mangleNominalType_records:
  assumes "mangleNominalType decl explosion m = Some m1"
    and "\<not> fst (tryMangleStandardSubstitution decl m)"
  shows "\<exists>i. map_of (Substitutions m1) (getDeclaredType decl) = Some i"
proof (cases "map_of (Substitutions m) (getDeclaredType decl)")
  case None
  show ?thesis
  proof (cases "getSpecifierForNominalType decl")
    case n: None
    then show ?thesis using assms None by (simp add: mangleNominalType_unfold)
  next
    case (Some c)
    then have "mangleDeclName decl No (emit [c] m) \<bind>
        (\<lambda>m3. Some (addSubstitution (getDeclaredType decl) m3)) = Some m1"
      using assms None by (simp add: mangleNominalType_unfold)
    then show ?thesis by (rule bind_addSubstitution_recorded)
  qed
next
  case (Some i)
  then have "m1 = emit (''S'' @ (if i = 0 then [] else decimal (i - 1)) @ ''_'') m"
    using assms by (simp add: mangleNominalType_unfold)
  then show ?thesis using Some by simp
qed

lemma mangleProtocolName_records:
  assumes "mangleProtocolName protocol m = Some m1"
  shows "getKind protocol = DeclKind_Protocol \<and>
    (\<exists>i. map_of (Substitutions m1) (getDeclaredType protocol) = Some i)"
proof (cases "map_of (Substitutions m) (getDeclaredType protocol)")
  case None
  have k: "getKind protocol = DeclKind_Protocol"
    using assms by (simp add: mangleProtocolName_unfold split: if_splits)
  then have "mangleDeclName protocol No m \<bind>
        (\<lambda>m3. Some (addSubstitution (getDeclaredType protocol) m3)) = Some m1"
    using assms None by (simp add: mangleProtocolName_unfold)
  then show ?thesis using k by (simp add: bind_addSubstitution_recorded)
next
  case (Some i)
  have k: "getKind protocol = DeclKind_Protocol"
    using assms by (simp add: mangleProtocolName_unfold split: if_splits)
  then have "m1 = emit (''S'' @ (if i = 0 then [] else decimal (i - 1)) @ ''_'') m"
    using assms Some by (simp add: mangleProtocolName_unfold)
  then show ?thesis using Some k by simp
qed

lemma mangleModule_records:
  assumes "mangleDeclContext (TranslationUnit module) m = Some m1"
    and "\<not> isSwiftModule module"
  shows "\<exists>i. map_of (Substitutions m1) (module_ptr module) = Some i"
proof (cases "map_of (Substitutions m) (module_ptr module)")
  case None
  then have "((case getParent module of
           None \<Rightarrow> Some m
         | Some parent \<Rightarrow> mangleDeclContext parent m) \<bind>
        (\<lambda>m2. mangleIdentifier (Name module) m2)) \<bind>
           (\<lambda>m3. Some (addSubstitution (module_ptr module) m3)) = Some m1"
    using assms(1) unfolding mangleModule_unfold [OF assms(2)] by simp
  then show ?thesis by (rule bind_addSubstitution_recorded)
next
  case (Some i)
  then have "m1 = emit (''S'' @ (if i = 0 then [] else decimal (i - 1)) @ ''_'') m"
    using assms(1) unfolding mangleModule_unfold [OF assms(2)] by simp
  then show ?thesis using Some by simp
qed

text \<open>
  C3, as stated, fails: the reference to a recorded identity is not always strictly shorter
  than its spelling. The module \<open>M\<close> is spelled \<open>1M\<close>, two bytes, and its second occurrence
  is \<open>S_\<close>, two bytes.
\<close>

theorem substitution_not_shorter:
  "mangleDeclContext (TranslationUnit (Module 1 (Identifier ''M'' False) None))
        \<lparr>Buffer = [], Substitutions = [], Archetypes = [], ArchetypesDepth = 0\<rparr> =
      Some \<lparr>Buffer = ''1M'', Substitutions = [(1, 0)], Archetypes = [], ArchetypesDepth = 0\<rparr>
   \<and> mangleDeclContext (TranslationUnit (Module 1 (Identifier ''M'' False) None))
        \<lparr>Buffer = ''1M'', Substitutions = [(1, 0)], Archetypes = [], ArchetypesDepth = 0\<rparr> =
      Some \<lparr>Buffer = ''1M'' @ ''S_'', Substitutions = [(1, 0)], Archetypes = [],
        ArchetypesDepth = 0\<rparr>
   \<and> \<not> length ''S_'' < length ''1M''"
  by (simp add: mangler_eval)

text \<open>
  C3, amended. \<^verbatim>\<open>tryMangleSubstitution\<close> on an identity recorded under the index \<open>i\<close>
  appends \<open>S\<close>, then \<open>i - 1\<close> in decimal unless \<open>i\<close> is 0, then \<open>_\<close>, and reports success; on
  an identity that is not recorded it reports failure and leaves the mangler as it is.
  \<^verbatim>\<open>addSubstitution\<close> writes nothing, and it records an identity that is not recorded under
  the number of identities recorded so far. The first occurrence of a nominal type without a
  standard substitution, of a protocol name, or of a module other than the standard library is
  its full spelling (the specifier of the nominal type, the context, the identifier), and the
  identity is recorded only after the spelling. Once it has been mangled its identity is
  recorded, and whatever has been mangled since, mangling it again appends exactly that
  reference.
\<close>

theorem substitution_second_occurrence:
  "(tryMangleSubstitution p m =
      (case map_of (Substitutions m) p of
         None \<Rightarrow> (False, m)
       | Some i \<Rightarrow> (True, emit (''S'' @ (if i = 0 then [] else decimal (i - 1)) @ ''_'') m)))
   \<and> (map_of (Substitutions m) p = None \<longrightarrow>
        Substitutions (addSubstitution p m) = Substitutions m @ [(p, length (Substitutions m))])
   \<and> (mangleNominalType decl explosion m = Some m1 \<and>
       \<not> fst (tryMangleStandardSubstitution decl m) \<and> frame0 m1 m2 \<longrightarrow>
        (\<exists>i. map_of (Substitutions m1) (getDeclaredType decl) = Some i \<and>
           mangleNominalType decl explosion' m2 =
             Some (emit (''S'' @ (if i = 0 then [] else decimal (i - 1)) @ ''_'') m2)))
   \<and> (mangleProtocolName protocol m = Some m1 \<and> frame0 m1 m2 \<longrightarrow>
        (\<exists>i. map_of (Substitutions m1) (getDeclaredType protocol) = Some i \<and>
           mangleProtocolName protocol m2 =
             Some (emit (''S'' @ (if i = 0 then [] else decimal (i - 1)) @ ''_'') m2)))
   \<and> (mangleDeclContext (TranslationUnit module) m = Some m1 \<and> \<not> isSwiftModule module \<and>
       frame0 m1 m2 \<longrightarrow>
        (\<exists>i. map_of (Substitutions m1) (module_ptr module) = Some i \<and>
           mangleDeclContext (TranslationUnit module) m2 =
             Some (emit (''S'' @ (if i = 0 then [] else decimal (i - 1)) @ ''_'') m2)))
   \<and> Buffer (addSubstitution p m) = Buffer m
   \<and> (\<not> fst (tryMangleStandardSubstitution decl m) \<and>
       map_of (Substitutions m) (getDeclaredType decl) = None \<and>
       getSpecifierForNominalType decl = Some c \<longrightarrow>
        mangleNominalType decl explosion m =
          mangleContextOf decl (emit [c] m) \<bind>
            (\<lambda>m3. mangleIdentifier (getName decl) m3 \<bind>
               (\<lambda>m4. Some (addSubstitution (getDeclaredType decl) m4))))
   \<and> (getKind protocol = DeclKind_Protocol \<and>
       map_of (Substitutions m) (getDeclaredType protocol) = None \<longrightarrow>
        mangleProtocolName protocol m =
          mangleContextOf protocol m \<bind>
            (\<lambda>m3. mangleIdentifier (getName protocol) m3 \<bind>
               (\<lambda>m4. Some (addSubstitution (getDeclaredType protocol) m4))))
   \<and> (\<not> isSwiftModule module \<and> map_of (Substitutions m) (module_ptr module) = None \<longrightarrow>
        mangleDeclContext (TranslationUnit module) m =
          (case getParent module of
             None \<Rightarrow> Some m
           | Some parent \<Rightarrow> mangleDeclContext parent m) \<bind>
            (\<lambda>m3. mangleIdentifier (Name module) m3 \<bind>
               (\<lambda>m4. Some (addSubstitution (module_ptr module) m4))))"
proof (intro conjI impI)
  show "tryMangleSubstitution p m =
      (case map_of (Substitutions m) p of
         None \<Rightarrow> (False, m)
       | Some i \<Rightarrow> (True, emit (''S'' @ (if i = 0 then [] else decimal (i - 1)) @ ''_'') m))"
    by (rule tryMangleSubstitution_eq)
  show "Substitutions (addSubstitution p m) = Substitutions m @ [(p, length (Substitutions m))]"
    if "map_of (Substitutions m) p = None"
    using that by (simp add: addSubstitution_def)
next
  assume a: "mangleNominalType decl explosion m = Some m1 \<and>
       \<not> fst (tryMangleStandardSubstitution decl m) \<and> frame0 m1 m2"
  then obtain i where i: "map_of (Substitutions m1) (getDeclaredType decl) = Some i"
    using mangleNominalType_records by blast
  then have "map_of (Substitutions m2) (getDeclaredType decl) = Some i"
    using a frame0_map_of by blast
  moreover have "\<not> fst (tryMangleStandardSubstitution decl m2)"
    using a tryMangleStandardSubstitution_state [of decl m2 m] by simp
  ultimately have "mangleNominalType decl explosion' m2 =
      Some (emit (''S'' @ (if i = 0 then [] else decimal (i - 1)) @ ''_'') m2)"
    by (simp add: mangleNominalType_unfold)
  with i show "\<exists>i. map_of (Substitutions m1) (getDeclaredType decl) = Some i \<and>
           mangleNominalType decl explosion' m2 =
             Some (emit (''S'' @ (if i = 0 then [] else decimal (i - 1)) @ ''_'') m2)"
    by blast
next
  assume a: "mangleProtocolName protocol m = Some m1 \<and> frame0 m1 m2"
  then obtain i where i: "map_of (Substitutions m1) (getDeclaredType protocol) = Some i"
    and k: "getKind protocol = DeclKind_Protocol"
    using mangleProtocolName_records by blast
  then have "map_of (Substitutions m2) (getDeclaredType protocol) = Some i"
    using a frame0_map_of by blast
  then have "mangleProtocolName protocol m2 =
      Some (emit (''S'' @ (if i = 0 then [] else decimal (i - 1)) @ ''_'') m2)"
    using k by (simp add: mangleProtocolName_unfold)
  with i show "\<exists>i. map_of (Substitutions m1) (getDeclaredType protocol) = Some i \<and>
           mangleProtocolName protocol m2 =
             Some (emit (''S'' @ (if i = 0 then [] else decimal (i - 1)) @ ''_'') m2)"
    by blast
next
  assume a: "mangleDeclContext (TranslationUnit module) m = Some m1 \<and> \<not> isSwiftModule module \<and>
       frame0 m1 m2"
  then obtain i where i: "map_of (Substitutions m1) (module_ptr module) = Some i"
    using mangleModule_records by blast
  then have "map_of (Substitutions m2) (module_ptr module) = Some i"
    using a frame0_map_of by blast
  moreover have n: "\<not> isSwiftModule module" using a by simp
  ultimately have "mangleDeclContext (TranslationUnit module) m2 =
      Some (emit (''S'' @ (if i = 0 then [] else decimal (i - 1)) @ ''_'') m2)"
    by (simp only: mangleModule_unfold [OF n] option.case)
  with i show "\<exists>i. map_of (Substitutions m1) (module_ptr module) = Some i \<and>
           mangleDeclContext (TranslationUnit module) m2 =
             Some (emit (''S'' @ (if i = 0 then [] else decimal (i - 1)) @ ''_'') m2)"
    by blast
next
  show "Buffer (addSubstitution p m) = Buffer m"
    by (simp add: addSubstitution_def)
next
  assume a: "\<not> fst (tryMangleStandardSubstitution decl m) \<and>
       map_of (Substitutions m) (getDeclaredType decl) = None \<and>
       getSpecifierForNominalType decl = Some c"
  then have "mangleNominalType decl explosion m =
      mangleDeclName decl No (emit [c] m) \<bind>
        (\<lambda>m3. Some (addSubstitution (getDeclaredType decl) m3))"
    by (simp add: mangleNominalType_unfold)
  then show "mangleNominalType decl explosion m =
          mangleContextOf decl (emit [c] m) \<bind>
            (\<lambda>m3. mangleIdentifier (getName decl) m3 \<bind>
               (\<lambda>m4. Some (addSubstitution (getDeclaredType decl) m4)))"
    by (simp add: mangleDeclName.simps [of decl No])
next
  assume a: "getKind protocol = DeclKind_Protocol \<and>
       map_of (Substitutions m) (getDeclaredType protocol) = None"
  then have "mangleProtocolName protocol m =
      mangleDeclName protocol No m \<bind>
        (\<lambda>m3. Some (addSubstitution (getDeclaredType protocol) m3))"
    by (simp add: mangleProtocolName_unfold)
  then show "mangleProtocolName protocol m =
          mangleContextOf protocol m \<bind>
            (\<lambda>m3. mangleIdentifier (getName protocol) m3 \<bind>
               (\<lambda>m4. Some (addSubstitution (getDeclaredType protocol) m4)))"
    by (simp add: mangleDeclName.simps [of protocol No])
next
  assume a: "\<not> isSwiftModule module \<and> map_of (Substitutions m) (module_ptr module) = None"
  then have n: "\<not> isSwiftModule module" by simp
  show "mangleDeclContext (TranslationUnit module) m =
          (case getParent module of
             None \<Rightarrow> Some m
           | Some parent \<Rightarrow> mangleDeclContext parent m) \<bind>
            (\<lambda>m3. mangleIdentifier (Name module) m3 \<bind>
               (\<lambda>m4. Some (addSubstitution (module_ptr module) m4)))"
    using a by (simp only: mangleModule_unfold [OF n] option.case)
qed

theorem substitution_second_occurrence_witness:
  "map_of (Substitutions \<lparr>Buffer = [], Substitutions = [], Archetypes = [], ArchetypesDepth = 0\<rparr>)
       (5::nat) = None
   \<and> Substitutions (addSubstitution 5
        \<lparr>Buffer = [], Substitutions = [], Archetypes = [], ArchetypesDepth = 0\<rparr>) = [(5, 0)]
   \<and> mangleNominalType (Decl DeclKind_Struct (Identifier ''A'' False)
        (TranslationUnit (Module 1 (Identifier ''M'' False) None)) ErrorType [] None False 10
        None None None) Minimal
        \<lparr>Buffer = [], Substitutions = [], Archetypes = [], ArchetypesDepth = 0\<rparr> =
      Some \<lparr>Buffer = ''V1M1A'', Substitutions = [(1, 0), (10, 1)], Archetypes = [],
        ArchetypesDepth = 0\<rparr>
   \<and> mangleNominalType (Decl DeclKind_Struct (Identifier ''A'' False)
        (TranslationUnit (Module 1 (Identifier ''M'' False) None)) ErrorType [] None False 10
        None None None) Maximal
        \<lparr>Buffer = ''V1M1A'', Substitutions = [(1, 0), (10, 1)], Archetypes = [],
          ArchetypesDepth = 0\<rparr> =
      Some \<lparr>Buffer = ''V1M1AS0_'', Substitutions = [(1, 0), (10, 1)], Archetypes = [],
        ArchetypesDepth = 0\<rparr>
   \<and> mangleProtocolName (Decl DeclKind_Protocol (Identifier ''P'' False)
        (TranslationUnit (Module 1 (Identifier ''M'' False) None)) ErrorType [] None False 11
        None None None)
        \<lparr>Buffer = [], Substitutions = [], Archetypes = [], ArchetypesDepth = 0\<rparr> =
      Some \<lparr>Buffer = ''1M1P'', Substitutions = [(1, 0), (11, 1)], Archetypes = [],
        ArchetypesDepth = 0\<rparr>
   \<and> mangleProtocolName (Decl DeclKind_Protocol (Identifier ''P'' False)
        (TranslationUnit (Module 1 (Identifier ''M'' False) None)) ErrorType [] None False 11
        None None None)
        \<lparr>Buffer = ''1M1P'', Substitutions = [(1, 0), (11, 1)], Archetypes = [],
          ArchetypesDepth = 0\<rparr> =
      Some \<lparr>Buffer = ''1M1PS0_'', Substitutions = [(1, 0), (11, 1)], Archetypes = [],
        ArchetypesDepth = 0\<rparr>
   \<and> mangleDeclContext (TranslationUnit (Module 1 (Identifier ''M'' False) None))
        \<lparr>Buffer = [], Substitutions = [], Archetypes = [], ArchetypesDepth = 0\<rparr> =
      Some \<lparr>Buffer = ''1M'', Substitutions = [(1, 0)], Archetypes = [], ArchetypesDepth = 0\<rparr>
   \<and> mangleDeclContext (TranslationUnit (Module 1 (Identifier ''M'' False) None))
        \<lparr>Buffer = ''1M'', Substitutions = [(1, 0)], Archetypes = [], ArchetypesDepth = 0\<rparr> =
      Some \<lparr>Buffer = ''1MS_'', Substitutions = [(1, 0)], Archetypes = [], ArchetypesDepth = 0\<rparr>
   \<and> \<not> fst (tryMangleStandardSubstitution (Decl DeclKind_Struct (Identifier ''A'' False)
        (TranslationUnit (Module 1 (Identifier ''M'' False) None)) ErrorType [] None False 10
        None None None)
        \<lparr>Buffer = [], Substitutions = [], Archetypes = [], ArchetypesDepth = 0\<rparr>)
   \<and> getSpecifierForNominalType (Decl DeclKind_Struct (Identifier ''A'' False)
        (TranslationUnit (Module 1 (Identifier ''M'' False) None)) ErrorType [] None False 10
        None None None) = Some CHR ''V''
   \<and> mangleContextOf (Decl DeclKind_Struct (Identifier ''A'' False)
        (TranslationUnit (Module 1 (Identifier ''M'' False) None)) ErrorType [] None False 10
        None None None)
        \<lparr>Buffer = ''V'', Substitutions = [], Archetypes = [], ArchetypesDepth = 0\<rparr> =
      Some \<lparr>Buffer = ''V1M'', Substitutions = [(1, 0)], Archetypes = [], ArchetypesDepth = 0\<rparr>
   \<and> mangleIdentifier (Identifier ''A'' False)
        \<lparr>Buffer = ''V1M'', Substitutions = [(1, 0)], Archetypes = [], ArchetypesDepth = 0\<rparr> =
      Some \<lparr>Buffer = ''V1M1A'', Substitutions = [(1, 0)], Archetypes = [],
        ArchetypesDepth = 0\<rparr>
   \<and> addSubstitution 10
        \<lparr>Buffer = ''V1M1A'', Substitutions = [(1, 0)], Archetypes = [], ArchetypesDepth = 0\<rparr> =
      \<lparr>Buffer = ''V1M1A'', Substitutions = [(1, 0), (10, 1)], Archetypes = [],
        ArchetypesDepth = 0\<rparr>
   \<and> getKind (Decl DeclKind_Protocol (Identifier ''P'' False)
        (TranslationUnit (Module 1 (Identifier ''M'' False) None)) ErrorType [] None False 11
        None None None) = DeclKind_Protocol
   \<and> \<not> isSwiftModule (Module 1 (Identifier ''M'' False) None)"
  using substitution_second_occurrence [of 5
      "\<lparr>Buffer = [], Substitutions = [], Archetypes = [], ArchetypesDepth = 0\<rparr>"
      "Decl DeclKind_Struct (Identifier ''A'' False)
        (TranslationUnit (Module 1 (Identifier ''M'' False) None)) ErrorType [] None False 10
        None None None"
      Minimal
      "\<lparr>Buffer = ''V1M1A'', Substitutions = [(1, 0), (10, 1)], Archetypes = [],
        ArchetypesDepth = 0\<rparr>"
      "\<lparr>Buffer = ''V1M1A'', Substitutions = [(1, 0), (10, 1)], Archetypes = [],
        ArchetypesDepth = 0\<rparr>"
      Maximal
      "Decl DeclKind_Protocol (Identifier ''P'' False)
        (TranslationUnit (Module 1 (Identifier ''M'' False) None)) ErrorType [] None False 11
        None None None"
      "Module 1 (Identifier ''M'' False) None" "CHR ''V''"]
    substitution_second_occurrence [of 5
      "\<lparr>Buffer = [], Substitutions = [], Archetypes = [], ArchetypesDepth = 0\<rparr>"
      "Decl DeclKind_Struct (Identifier ''A'' False)
        (TranslationUnit (Module 1 (Identifier ''M'' False) None)) ErrorType [] None False 10
        None None None"
      Minimal
      "\<lparr>Buffer = ''1M1P'', Substitutions = [(1, 0), (11, 1)], Archetypes = [],
        ArchetypesDepth = 0\<rparr>"
      "\<lparr>Buffer = ''1M1P'', Substitutions = [(1, 0), (11, 1)], Archetypes = [],
        ArchetypesDepth = 0\<rparr>"
      Maximal
      "Decl DeclKind_Protocol (Identifier ''P'' False)
        (TranslationUnit (Module 1 (Identifier ''M'' False) None)) ErrorType [] None False 11
        None None None"
      "Module 1 (Identifier ''M'' False) None" "CHR ''V''"]
    substitution_second_occurrence [of 5
      "\<lparr>Buffer = [], Substitutions = [], Archetypes = [], ArchetypesDepth = 0\<rparr>"
      "Decl DeclKind_Struct (Identifier ''A'' False)
        (TranslationUnit (Module 1 (Identifier ''M'' False) None)) ErrorType [] None False 10
        None None None"
      Minimal
      "\<lparr>Buffer = ''1M'', Substitutions = [(1, 0)], Archetypes = [],
        ArchetypesDepth = 0\<rparr>"
      "\<lparr>Buffer = ''1M'', Substitutions = [(1, 0)], Archetypes = [],
        ArchetypesDepth = 0\<rparr>"
      Maximal
      "Decl DeclKind_Protocol (Identifier ''P'' False)
        (TranslationUnit (Module 1 (Identifier ''M'' False) None)) ErrorType [] None False 11
        None None None"
      "Module 1 (Identifier ''M'' False) None" "CHR ''V''"]
  apply (simp add: mangler_eval del: decimal.simps)
  apply (simp add: mangler_eval)
  done

section \<open>What separates two entities\<close>

lemma mangleEntity_explosion:
  "mangleEntity decl explosion uncurryLevel m = mangleEntity decl Minimal uncurryLevel m"
  by (simp only: mangleEntity_def mangler_explosion(7) [of decl explosion])

lemma mangleOther_explosion:
  "mangleOther decl explosion uncurryLevel isLocalLinkage m =
   mangleOther decl Minimal uncurryLevel isLocalLinkage m"
  by (simp only: mangleOther_def mangleEntity_explosion [of decl explosion])

lemma LinkEntity_mangle_explosion:
  "LinkEntity_mangle (WitnessTableOffset decl explosion uncurryLevel) m =
     LinkEntity_mangle (WitnessTableOffset decl Minimal uncurryLevel) m"
  "LinkEntity_mangle (Constructor decl kind explosion uncurryLevel isLocalLinkage) m =
     LinkEntity_mangle (Constructor decl kind Minimal uncurryLevel isLocalLinkage) m"
  "LinkEntity_mangle (Function decl explosion uncurryLevel isLocalLinkage) m =
     LinkEntity_mangle (Function decl Minimal uncurryLevel isLocalLinkage) m"
  "LinkEntity_mangle (Other decl explosion uncurryLevel isLocalLinkage) m =
     LinkEntity_mangle (Other decl Minimal uncurryLevel isLocalLinkage) m"
  "LinkEntity_mangle (Getter decl explosion uncurryLevel isLocalLinkage) m =
     LinkEntity_mangle (Getter decl Minimal uncurryLevel isLocalLinkage) m"
  "LinkEntity_mangle (Setter decl explosion uncurryLevel isLocalLinkage) m =
     LinkEntity_mangle (Setter decl Minimal uncurryLevel isLocalLinkage) m"
  by (simp_all only: LinkEntity_mangle.simps mangleEntity_explosion [of decl explosion]
      mangleOther_explosion [of decl explosion] mangler_explosion(7) [of decl explosion])

lemma mangleValueWitness_inj:
  "mangleValueWitness w = Some code \<Longrightarrow> mangleValueWitness w' = Some code' \<Longrightarrow> w \<noteq> w' \<Longrightarrow>
     code \<noteq> code' \<and> length code = 2 \<and> length code' = 2"
  by (cases w; cases w'; clarsimp simp: mangleValueWitness_def)

lemma frame_prefix: "frame m m' \<Longrightarrow> \<exists>rest. Buffer m' = Buffer m @ rest"
  by (auto simp: frame_def frame0_def prefix_def)

lemma append_eq_same_length:
  "a @ x = b @ y \<Longrightarrow> length a = length b \<Longrightarrow> a = b"
  by (simp add: append_eq_append_conv)

lemma keeps_prefix:
  assumes "keeps (emit out m) r" and "r = Some m'"
  shows "\<exists>rest. Buffer m' = Buffer m @ out @ rest"
proof -
  have "frame (emit out m) m'" using assms by (rule keepsD)
  then obtain rest where "Buffer m' = Buffer (emit out m) @ rest"
    using frame_prefix by blast
  then show ?thesis by (simp add: emit_def)
qed

lemma value_witness_distinct:
  assumes "w \<noteq> w'"
    and "mangle (ValueWitness t w) buffer = Some s"
    and "mangle (ValueWitness t w') buffer = Some s'"
  shows "s \<noteq> s'"
proof
  assume eq: "s = s'"
  from assms(2) obtain code m1 where c: "mangleValueWitness w = Some code"
    and 1: "mangleType t Minimal 0 (emit code (emit ''_Tw'' (Mangler_init buffer))) = Some m1"
    and s: "s = Buffer m1"
    by (auto simp: mangle_def split: option.splits)
  from assms(3) obtain code' m2 where c': "mangleValueWitness w' = Some code'"
    and 2: "mangleType t Minimal 0 (emit code' (emit ''_Tw'' (Mangler_init buffer))) = Some m2"
    and s': "s' = Buffer m2"
    by (auto simp: mangle_def split: option.splits)
  obtain rest where r: "s = (buffer @ ''_Tw'' @ code) @ rest"
    using keeps_prefix [OF mangler_frame(8) 1] s by (auto simp: Mangler_init_def emit_def)
  obtain rest' where r': "s' = (buffer @ ''_Tw'' @ code') @ rest'"
    using keeps_prefix [OF mangler_frame(8) 2] s' by (auto simp: Mangler_init_def emit_def)
  have l: "code \<noteq> code'" "length code = 2" "length code' = 2"
    using mangleValueWitness_inj [OF c c' assms(1)] by simp_all
  have "buffer @ ''_Tw'' @ code = buffer @ ''_Tw'' @ code'"
    using eq r r' l(2,3) by (auto intro: append_eq_same_length [of _ rest _ rest'])
  then show False using l(1) by simp
qed

lemma getter_setter_distinct:
  assumes "mangle (Getter decl explosion uncurryLevel isLocalLinkage) buffer = Some s"
    and "mangle (Setter decl explosion' uncurryLevel isLocalLinkage) buffer = Some s'"
  shows "s \<noteq> s'"
proof -
  let ?m = "(if isLocalLinkage then emit ''L'' else id) (emit ''_T'' (Mangler_init buffer))"
  from assms(1) obtain m1 where 1: "mangleEntity decl explosion uncurryLevel ?m = Some m1"
    and s: "s = Buffer m1 @ ''g''"
    by (auto simp: mangle_def bind_eq_Some_conv emit_def)
  from assms(2) obtain m2 where 2: "mangleEntity decl explosion' uncurryLevel ?m = Some m2"
    and s': "s' = Buffer m2 @ ''s''"
    by (auto simp: mangle_def bind_eq_Some_conv emit_def)
  have "m1 = m2"
    using 1 2 mangleEntity_explosion [of decl explosion uncurryLevel ?m]
      mangleEntity_explosion [of decl explosion' uncurryLevel ?m] by simp
  then show ?thesis using s s' by simp
qed

lemma destructor_kinds_distinct:
  assumes "mangle (Destructor decl Deallocating isLocalLinkage) buffer = Some s"
    and "mangle (Destructor decl Destroying isLocalLinkage) buffer = Some s'"
  shows "s \<noteq> s'"
proof -
  let ?m = "(if isLocalLinkage then emit ''L'' else id) (emit ''_T'' (Mangler_init buffer))"
  from assms(1) obtain m1 where 1: "mangleNominalType decl Minimal ?m = Some m1"
    and s: "s = Buffer m1 @ ''D''"
    by (auto simp: mangle_def bind_eq_Some_conv emit_def split: if_splits)
  from assms(2) obtain m2 where 2: "mangleNominalType decl Minimal ?m = Some m2"
    and s': "s' = Buffer m2 @ ''d''"
    by (auto simp: mangle_def bind_eq_Some_conv emit_def split: if_splits)
  show ?thesis using 1 2 s s' by simp
qed

lemma constructor_kinds_distinct:
  assumes "mangle (Constructor decl Allocating explosion uncurryLevel isLocalLinkage) buffer = Some s"
    and "mangle (Constructor decl Initializing explosion' uncurryLevel' isLocalLinkage) buffer = Some s'"
  shows "s \<noteq> s'"
proof
  assume eq: "s = s'"
  let ?m = "(if isLocalLinkage then emit ''L'' else id) (emit ''_T'' (Mangler_init buffer))"
  from assms(1) obtain m1 m2 where 1: "mangleContextOf decl ?m = Some m1"
    and 2: "mangleDeclType decl explosion uncurryLevel (emit ''C'' m1) = Some m2"
    and s: "s = Buffer m2"
    by (auto simp: mangle_def bind_eq_Some_conv mangleConstructorKind_def split: if_splits)
  from assms(2) 1 obtain m3 where 3: "mangleDeclType decl explosion' uncurryLevel' (emit ''c'' m1) = Some m3"
    and s': "s' = Buffer m3"
    by (auto simp: mangle_def bind_eq_Some_conv mangleConstructorKind_def split: if_splits)
  obtain rest where r: "s = (Buffer m1 @ ''C'') @ rest"
    using keeps_prefix [OF mangler_frame(7) 2] s by auto
  obtain rest' where r': "s' = (Buffer m1 @ ''c'') @ rest'"
    using keeps_prefix [OF mangler_frame(7) 3] s' by auto
  have "Buffer m1 @ ''C'' = Buffer m1 @ ''c''"
    using eq r r' by (auto intro: append_eq_same_length [of _ rest _ rest'])
  then show False by simp
qed

lemma mangleDeclType_func:
  assumes "getKind decl = DeclKind_Func"
    and "getDesugaredType (getType decl) = FunctionType input result False"
    and "mangleDeclType decl explosion uncurryLevel m = Some m'"
  shows "\<exists>rest. Buffer m' = Buffer m @ (if uncurryLevel = 0 then CHR ''F'' else CHR ''f'') # rest"
proof -
  have "mangleType (getType decl) explosion uncurryLevel m =
      mangleType input explosion 0 (emit (if uncurryLevel = 0 then ''F'' else ''f'') m) \<bind>
        mangleType result explosion (uncurryLevel - 1)"
    by (simp add: mangleType_getDesugaredType [of "getType decl"] assms(2))
  then obtain m2 where 2: "mangleType input explosion 0
        (emit [if uncurryLevel = 0 then CHR ''F'' else CHR ''f''] m) \<bind>
        mangleType result explosion (uncurryLevel - 1) = Some m2"
    and b: "Buffer m' = Buffer m2"
    using assms(1,3)
    by (auto simp: mangleDeclType.simps ClassifyDecl_def bind_eq_Some_conv split: if_splits)
  show ?thesis using mangleFunctionType_first [OF 2] b by simp
qed

lemma uncurry_levels_distinct:
  assumes "getKind decl = DeclKind_Func"
    and "getDesugaredType (getType decl) = FunctionType input result False"
    and "AsmName decl = []" and "getClangDecl decl = None"
    and "mangle (Function decl explosion 0 isLocalLinkage) buffer = Some s"
    and "mangle (Function decl explosion' (Suc n) isLocalLinkage) buffer = Some s'"
  shows "s \<noteq> s'"
proof
  assume eq: "s = s'"
  let ?m = "(if isLocalLinkage then emit ''L'' else id) (emit ''_T'' (Mangler_init buffer))"
  from assms(3-5) obtain m1 m2 where 1: "mangleDeclName decl No ?m = Some m1"
    and 2: "mangleDeclType decl explosion 0 m1 = Some m2"
    and s: "s = Buffer m2"
    by (auto simp: mangle_def mangleOther_def mangleEntity_def bind_eq_Some_conv split: if_splits)
  from assms(3,4,6) 1 obtain m3 where 3: "mangleDeclType decl explosion' (Suc n) m1 = Some m3"
    and s': "s' = Buffer m3"
    by (auto simp: mangle_def mangleOther_def mangleEntity_def bind_eq_Some_conv split: if_splits)
  obtain rest where r: "s = (Buffer m1 @ ''F'') @ rest"
    using mangleDeclType_func [OF assms(1,2) 2] s by auto
  obtain rest' where r': "s' = (Buffer m1 @ ''f'') @ rest'"
    using mangleDeclType_func [OF assms(1,2) 3] s' by auto
  have "Buffer m1 @ ''F'' = Buffer m1 @ ''f''"
    using eq r r' by (auto intro: append_eq_same_length [of _ rest _ rest'])
  then show False by simp
qed




end
